theory Spec2Isabelle
  imports Main "HOL-Library.Sublist" "HOL-Library.AList"
begin

section \<open>JavaScript values\<close>

text \<open>
  The values the client handles are the results of \<^verbatim>\<open>response.json()\<close>, the
  field \<^verbatim>\<open>this.token\<close> and the arguments of \<^verbatim>\<open>localStorage.setItem\<close>.
  An object is the list of its members in the order of the JSON text. \<open>Num n\<close> stands
  for an integer that JavaScript holds exactly and prints in decimal digits (magnitude
  at most \<open>2^53\<close>); fractions, and integers from \<open>10^21\<close> on, which JavaScript
  prints with an exponent, are outside the model.
\<close>

datatype jsval =
    Undefined
  | Null
  | Bool bool
  | Num int
  | Str string
  | Arr "jsval list"
  | Obj "(string \<times> jsval) list"

text \<open>The exceptions of the client: \<^verbatim>\<open>new Error(message)\<close>, the rejection of
  \<^verbatim>\<open>fetch\<close> when no response is reached, the rejection of
  \<^verbatim>\<open>response.json()\<close> on a body that is not JSON, and a property read on
  \<^verbatim>\<open>null\<close> or \<^verbatim>\<open>undefined\<close>.\<close>

datatype js_error =
    Error string
  | NetworkError
  | SyntaxError
  | TypeError

text \<open>Truthiness, as \<^verbatim>\<open>if (x)\<close>, \<^verbatim>\<open>!x\<close> and \<^verbatim>\<open>x || y\<close> test it.\<close>

fun truthy :: "jsval \<Rightarrow> bool" where
  "truthy Undefined = False"
| "truthy Null = False"
| "truthy (Bool b) = b"
| "truthy (Num n) = (n \<noteq> 0)"
| "truthy (Str s) = (s \<noteq> [])"
| "truthy (Arr xs) = True"
| "truthy (Obj kvs) = True"

fun digits :: "nat \<Rightarrow> string" where
  "digits n =
     (if n < 10 then [''0123456789'' ! n]
      else digits (n div 10) @ [''0123456789'' ! (n mod 10)])"

definition int_to_string :: "int \<Rightarrow> string" where
  "int_to_string i = (if i < 0 then CHR ''-'' # digits (nat (- i)) else digits (nat i))"

fun join_comma :: "string list \<Rightarrow> string" where
  "join_comma [] = []"
| "join_comma [s] = s"
| "join_comma (s # t # ss) = s @ '','' @ join_comma (t # ss)"

text \<open>The conversion to a string that template literals, \<^verbatim>\<open>new Error\<close> and
  \<^verbatim>\<open>localStorage.setItem\<close> apply. An array joins its elements with commas,
  \<^verbatim>\<open>null\<close> and \<^verbatim>\<open>undefined\<close> elements as the empty string.\<close>

fun to_string :: "jsval \<Rightarrow> string" where
  "to_string Undefined = ''undefined''"
| "to_string Null = ''null''"
| "to_string (Bool b) = (if b then ''true'' else ''false'')"
| "to_string (Num n) = int_to_string n"
| "to_string (Str s) = s"
| "to_string (Arr xs) =
     join_comma (map (\<lambda>x. if x = Undefined \<or> x = Null then [] else to_string x) xs)"
| "to_string (Obj kvs) = ''[object Object]''"

text \<open>A read \<^verbatim>\<open>data.name\<close> of one of the member names the client uses
  (\<^verbatim>\<open>detail\<close>, \<^verbatim>\<open>access_token\<close>, \<^verbatim>\<open>refresh_token\<close>,
  \<^verbatim>\<open>message\<close>, \<^verbatim>\<open>status\<close>, \<^verbatim>\<open>type\<close>, ...): it throws on
  \<^verbatim>\<open>null\<close> and \<^verbatim>\<open>undefined\<close>, a parsed object gives its last member of
  that name, any other value has no such member.\<close>

fun get_prop :: "jsval \<Rightarrow> string \<Rightarrow> js_error + jsval" where
  "get_prop Undefined k = Inl TypeError"
| "get_prop Null k = Inl TypeError"
| "get_prop (Obj kvs) k =
     Inr (case map_of (rev kvs) k of None \<Rightarrow> Undefined | Some v \<Rightarrow> v)"
| "get_prop v k = Inr Undefined"

text \<open>\<^verbatim>\<open>s.includes(sub)\<close>\<close>

fun str_includes :: "string \<Rightarrow> string \<Rightarrow> bool" where
  "str_includes [] sub = (sub = [])"
| "str_includes (c # cs) sub = (prefix sub (c # cs) \<or> str_includes cs sub)"

section \<open>The network and the browser state\<close>

datatype body = Text string | Form "(string \<times> string) list"

record fetch_call =
  url :: string
  meth :: "string option"
  payload :: "body option"
  headers :: "(string \<times> string) list"

text \<open>What the client reads of a response: \<^verbatim>\<open>status\<close>,
  \<^verbatim>\<open>headers.get('content-type')\<close>, the result of \<^verbatim>\<open>json()\<close>
  (\<open>None\<close> when the body does not parse) and of \<^verbatim>\<open>text()\<close>.\<close>

record response =
  status :: nat
  content_type :: "string option"
  json_body :: "jsval option"
  text_body :: string

definition ok :: "response \<Rightarrow> bool" where
  "ok r = (200 \<le> status r \<and> status r \<le> 299)"

datatype fetch_outcome = Rejected | Responded response

text \<open>The remote service: its answer to a call may depend on the calls before it.\<close>

type_synonym network = "fetch_call list \<Rightarrow> fetch_call \<Rightarrow> fetch_outcome"

text \<open>The state the client works on: its field \<^verbatim>\<open>this.token\<close>,
  \<^verbatim>\<open>localStorage\<close>, the calls \<^verbatim>\<open>fetch\<close> has issued so far and the number
  of \<^verbatim>\<open>window.location.reload()\<close> calls.\<close>

record world =
  token :: jsval
  storage :: "string \<rightharpoonup> string"
  fetched :: "fetch_call list"
  reloads :: nat

definition API_BASE_URL :: string where
  "API_BASE_URL = ''http://localhost:8000/api''"

definition getItem :: "string \<Rightarrow> world \<Rightarrow> jsval" where
  "getItem k w = (case storage w k of None \<Rightarrow> Null | Some v \<Rightarrow> Str v)"

definition setItem :: "string \<Rightarrow> jsval \<Rightarrow> world \<Rightarrow> world" where
  "setItem k v w = w\<lparr>storage := (storage w)(k \<mapsto> to_string v)\<rparr>"

definition removeItem :: "string \<Rightarrow> world \<Rightarrow> world" where
  "removeItem k w = w\<lparr>storage := (storage w)(k := None)\<rparr>"

definition fetch :: "network \<Rightarrow> fetch_call \<Rightarrow> world \<Rightarrow> fetch_outcome \<times> world" where
  "fetch net c w = (net (fetched w) c, w\<lparr>fetched := fetched w @ [c]\<rparr>)"

section \<open>ApiClient\<close>

text \<open>\<^verbatim>\<open>new ApiClient()\<close> in a browser whose \<^verbatim>\<open>localStorage\<close> is \<open>st\<close>.\<close>

definition constructor :: "(string \<rightharpoonup> string) \<Rightarrow> world" where
  "constructor st =
     (let w = \<lparr>token = Null, storage = st, fetched = [], reloads = 0\<rparr>
      in w\<lparr>token := getItem ''access_token'' w\<rparr>)"

definition setToken :: "jsval \<Rightarrow> world \<Rightarrow> world" where
  "setToken tok w = setItem ''access_token'' tok (w\<lparr>token := tok\<rparr>)"

definition clearToken :: "world \<Rightarrow> world" where
  "clearToken w =
     removeItem ''refresh_token'' (removeItem ''access_token'' (w\<lparr>token := Null\<rparr>))"

record options =
  opt_method :: "string option"
  opt_body :: "body option"
  opt_headers :: "(string \<times> string) list"

text \<open>The object spread \<^verbatim>\<open>{'Content-Type': 'application/json', ...options.headers}\<close>.\<close>

definition spread :: "(string \<times> string) list \<Rightarrow> (string \<times> string) list \<Rightarrow> (string \<times> string) list" where
  "spread base extra = fold (\<lambda>(k, v). AList.update k v) extra base"

definition handleResponse :: "response \<Rightarrow> js_error + jsval" where
  "handleResponse r =
     (if status r = 204 then Inr Null
      else if (case content_type r of None \<Rightarrow> False
               | Some ct \<Rightarrow> ct \<noteq> [] \<and> str_includes ct ''application/json'') then
        (case json_body r of
           None \<Rightarrow> Inl SyntaxError
         | Some data \<Rightarrow>
             if \<not> ok r then
               (case get_prop data ''detail'' of
                  Inl e \<Rightarrow> Inl e
                | Inr d \<Rightarrow> Inl (Error (if truthy d then to_string d else ''Request failed'')))
             else Inr data)
      else if \<not> ok r then Inl (Error ''Request failed'')
      else Inr (Str (text_body r)))"

definition refresh_call :: "string \<Rightarrow> fetch_call" where
  "refresh_call rt =
     \<lparr>url = API_BASE_URL @ ''/auth/refresh?refresh_token='' @ rt,
      meth = Some ''POST'', payload = None, headers = []\<rparr>"

text \<open>The body of \<^verbatim>\<open>refreshToken\<close> after \<^verbatim>\<open>response.json()\<close> has given
  \<open>data\<close>: both writes, then \<^verbatim>\<open>true\<close>; a \<^verbatim>\<open>TypeError\<close> of a property
  read is caught and gives \<^verbatim>\<open>false\<close>.\<close>

definition store_renewed :: "jsval \<Rightarrow> world \<Rightarrow> bool \<times> world" where
  "store_renewed data w =
     (case get_prop data ''access_token'' of
        Inl e \<Rightarrow> (False, w)
      | Inr a \<Rightarrow>
          (case get_prop data ''refresh_token'' of
             Inl e \<Rightarrow> (False, setToken a w)
           | Inr r \<Rightarrow> (True, setItem ''refresh_token'' r (setToken a w))))"

definition refreshToken :: "network \<Rightarrow> world \<Rightarrow> bool \<times> world" where
  "refreshToken net w =
     (let refreshToken = getItem ''refresh_token'' w in
      if \<not> truthy refreshToken then (False, w)
      else
        (case fetch net (refresh_call (to_string refreshToken)) w of
           (Rejected, w1) \<Rightarrow> (False, w1)
         | (Responded r, w1) \<Rightarrow>
             if ok r then
               (case json_body r of
                  None \<Rightarrow> (False, w1)
                | Some data \<Rightarrow> store_renewed data w1)
             else (False, w1)))"

definition request_headers :: "options \<Rightarrow> world \<Rightarrow> (string \<times> string) list" where
  "request_headers opts w =
     (let headers = spread [(''Content-Type'', ''application/json'')] (opt_headers opts) in
      if truthy (token w)
      then AList.update ''Authorization'' (''Bearer '' @ to_string (token w)) headers
      else headers)"

definition request_call :: "string \<Rightarrow> options \<Rightarrow> (string \<times> string) list \<Rightarrow> fetch_call" where
  "request_call endpoint opts hs =
     \<lparr>url = API_BASE_URL @ endpoint, meth = opt_method opts, payload = opt_body opts,
      headers = hs\<rparr>"

definition reload :: "world \<Rightarrow> world" where
  "reload w = w\<lparr>reloads := Suc (reloads w)\<rparr>"

definition request :: "network \<Rightarrow> string \<Rightarrow> options \<Rightarrow> world \<Rightarrow> (js_error + jsval) \<times> world" where
  "request net endpoint opts w =
     (let hs = request_headers opts w in
      case fetch net (request_call endpoint opts hs) w of
        (Rejected, w1) \<Rightarrow> (Inl NetworkError, w1)
      | (Responded r, w1) \<Rightarrow>
          if status r = 401 then
            (case refreshToken net w1 of
               (True, w2) \<Rightarrow>
                 (let hs' = AList.update ''Authorization'' (''Bearer '' @ to_string (token w2)) hs in
                  case fetch net (request_call endpoint opts hs') w2 of
                    (Rejected, w3) \<Rightarrow> (Inl NetworkError, w3)
                  | (Responded r2, w3) \<Rightarrow> (handleResponse r2, w3))
             | (False, w2) \<Rightarrow> (Inl (Error ''Session expired''), reload (clearToken w2)))
          else (handleResponse r, w1))"

definition login_call :: "string \<Rightarrow> string \<Rightarrow> fetch_call" where
  "login_call username password =
     \<lparr>url = API_BASE_URL @ ''/auth/login'', meth = Some ''POST'',
      payload = Some (Form [(''username'', username), (''password'', password)]),
      headers = [(''Content-Type'', ''application/x-www-form-urlencoded'')]\<rparr>"

text \<open>The body of \<^verbatim>\<open>login\<close> after \<^verbatim>\<open>response.json()\<close> has given \<open>data\<close>.\<close>

definition login_finish :: "response \<Rightarrow> jsval \<Rightarrow> world \<Rightarrow> (js_error + jsval) \<times> world" where
  "login_finish r data w =
     (if \<not> ok r then
        (case get_prop data ''detail'' of
           Inl e \<Rightarrow> (Inl e, w)
         | Inr d \<Rightarrow> (Inl (Error (if truthy d then to_string d else ''Login failed'')), w))
      else
        (case get_prop data ''access_token'' of
           Inl e \<Rightarrow> (Inl e, w)
         | Inr a \<Rightarrow>
             (case get_prop data ''refresh_token'' of
                Inl e \<Rightarrow> (Inl e, setToken a w)
              | Inr rt \<Rightarrow> (Inr data, setItem ''refresh_token'' rt (setToken a w)))))"

definition login :: "network \<Rightarrow> string \<Rightarrow> string \<Rightarrow> world \<Rightarrow> (js_error + jsval) \<times> world" where
  "login net username password w =
     (case fetch net (login_call username password) w of
        (Rejected, w1) \<Rightarrow> (Inl NetworkError, w1)
      | (Responded r, w1) \<Rightarrow>
          (case json_body r of
             None \<Rightarrow> (Inl SyntaxError, w1)
           | Some data \<Rightarrow> login_finish r data w1))"


text \<open>The two calls \<^verbatim>\<open>request\<close> can issue for itself: the first attempt, and
  the replay with the header rebuilt from the token of the world \<open>w2\<close> the renewal
  left.\<close>

definition first_attempt :: "string \<Rightarrow> options \<Rightarrow> world \<Rightarrow> fetch_call" where
  "first_attempt endpoint opts w = request_call endpoint opts (request_headers opts w)"

definition replay :: "string \<Rightarrow> options \<Rightarrow> world \<Rightarrow> world \<Rightarrow> fetch_call" where
  "replay endpoint opts w w2 =
     request_call endpoint opts
       (AList.update ''Authorization'' (''Bearer '' @ to_string (token w2))
          (request_headers opts w))"

text \<open>A sequence of calls on one client, each run to completion before the next.\<close>

datatype operation =
    OpSetToken jsval
  | OpClearToken
  | OpLogin string string
  | OpRefreshToken
  | OpRequest string options

fun perform :: "network \<Rightarrow> operation \<Rightarrow> world \<Rightarrow> world" where
  "perform net (OpSetToken v) w = setToken v w"
| "perform net OpClearToken w = clearToken w"
| "perform net (OpLogin u p) w = snd (login net u p w)"
| "perform net OpRefreshToken w = snd (refreshToken net w)"
| "perform net (OpRequest endpoint opts) w = snd (request net endpoint opts w)"

definition run_ops :: "network \<Rightarrow> operation list \<Rightarrow> world \<Rightarrow> world" where
  "run_ops net ops w = fold (perform net) ops w"

text \<open>The field \<^verbatim>\<open>this.token\<close> and the stored \<^verbatim>\<open>access_token\<close> agree: the
  same string, or \<^verbatim>\<open>null\<close> and no entry.\<close>

definition token_mirrors_store :: "world \<Rightarrow> bool" where
  "token_mirrors_store w = (token w = getItem ''access_token'' w)"

fun is_string :: "jsval \<Rightarrow> bool" where
  "is_string (Str s) = True"
| "is_string v = False"

fun string_argument :: "operation \<Rightarrow> bool" where
  "string_argument (OpSetToken v) = is_string v"
| "string_argument op = True"

text \<open>A service whose successful JSON answers to a login or a renewal call carry a
  string as \<^verbatim>\<open>access_token\<close>.\<close>

definition token_call :: "fetch_call \<Rightarrow> bool" where
  "token_call c = ((\<exists>u p. c = login_call u p) \<or> (\<exists>rt. c = refresh_call rt))"

definition string_tokens :: "network \<Rightarrow> bool" where
  "string_tokens net =
     (\<forall>log c r data v. token_call c \<and> net log c = Responded r \<and> ok r \<and>
         json_body r = Some data \<and> get_prop data ''access_token'' = Inr v \<longrightarrow> is_string v)"

section \<open>Requests in flight together\<close>

text \<open>
  The client runs on one thread; an \<^verbatim>\<open>async\<close> method runs until its next
  \<^verbatim>\<open>await\<close> and is resumed later, so calls in flight together interleave at
  their \<^verbatim>\<open>await\<close>s. A task is a call suspended at one of them, with the locals it
  still needs. \<^verbatim>\<open>handleResponse\<close> touches no shared state and is taken in one
  step.
\<close>

record req_ctx =
  r_endpoint :: string
  r_options :: options
  r_headers :: "(string \<times> string) list"

datatype task =
    AwaitFirst req_ctx
  | AwaitRenewalFetch req_ctx
  | AwaitRenewalJson req_ctx response
  | AwaitRenewal req_ctx bool
  | AwaitReplay req_ctx
  | AwaitLoginFetch
  | AwaitLoginJson response
  | Finished "js_error + jsval"

datatype event = Arrives fetch_outcome | Continue

definition issue :: "fetch_call \<Rightarrow> world \<Rightarrow> world" where
  "issue c w = w\<lparr>fetched := fetched w @ [c]\<rparr>"

text \<open>\<^verbatim>\<open>request\<close> up to its first \<^verbatim>\<open>await fetch(...)\<close>.\<close>

definition start_request :: "string \<Rightarrow> options \<Rightarrow> world \<Rightarrow> task \<times> world" where
  "start_request endpoint opts w =
     (let hs = request_headers opts w in
      (AwaitFirst \<lparr>r_endpoint = endpoint, r_options = opts, r_headers = hs\<rparr>,
       issue (request_call endpoint opts hs) w))"

definition start_login :: "string \<Rightarrow> string \<Rightarrow> world \<Rightarrow> task \<times> world" where
  "start_login username password w = (AwaitLoginFetch, issue (login_call username password) w)"

text \<open>\<^verbatim>\<open>refreshToken\<close> up to its \<^verbatim>\<open>await fetch(...)\<close>, or to its early
  \<^verbatim>\<open>return false\<close>, on which the caller's \<^verbatim>\<open>await this.refreshToken()\<close>
  still suspends.\<close>

definition start_renewal :: "req_ctx \<Rightarrow> world \<Rightarrow> task \<times> world" where
  "start_renewal ctx w =
     (let refreshToken = getItem ''refresh_token'' w in
      if \<not> truthy refreshToken then (AwaitRenewal ctx False, w)
      else (AwaitRenewalFetch ctx, issue (refresh_call (to_string refreshToken)) w))"

fun resume :: "task \<Rightarrow> event \<Rightarrow> world \<Rightarrow> (task \<times> world) option" where
  "resume (AwaitFirst ctx) (Arrives Rejected) w = Some (Finished (Inl NetworkError), w)"
| "resume (AwaitFirst ctx) (Arrives (Responded r)) w =
     (if status r = 401 then Some (start_renewal ctx w)
      else Some (Finished (handleResponse r), w))"
| "resume (AwaitRenewalFetch ctx) (Arrives Rejected) w = Some (AwaitRenewal ctx False, w)"
| "resume (AwaitRenewalFetch ctx) (Arrives (Responded r)) w =
     (if ok r then Some (AwaitRenewalJson ctx r, w) else Some (AwaitRenewal ctx False, w))"
| "resume (AwaitRenewalJson ctx r) Continue w =
     (case json_body r of
        None \<Rightarrow> Some (AwaitRenewal ctx False, w)
      | Some data \<Rightarrow> (case store_renewed data w of (b, w') \<Rightarrow> Some (AwaitRenewal ctx b, w')))"
| "resume (AwaitRenewal ctx True) Continue w =
     (let hs' = AList.update ''Authorization'' (''Bearer '' @ to_string (token w)) (r_headers ctx)
      in Some (AwaitReplay (ctx\<lparr>r_headers := hs'\<rparr>),
               issue (request_call (r_endpoint ctx) (r_options ctx) hs') w))"
| "resume (AwaitRenewal ctx False) Continue w =
     Some (Finished (Inl (Error ''Session expired'')), reload (clearToken w))"
| "resume (AwaitReplay ctx) (Arrives Rejected) w = Some (Finished (Inl NetworkError), w)"
| "resume (AwaitReplay ctx) (Arrives (Responded r)) w = Some (Finished (handleResponse r), w)"
| "resume AwaitLoginFetch (Arrives Rejected) w = Some (Finished (Inl NetworkError), w)"
| "resume AwaitLoginFetch (Arrives (Responded r)) w = Some (AwaitLoginJson r, w)"
| "resume (AwaitLoginJson r) Continue w =
     (case json_body r of
        None \<Rightarrow> Some (Finished (Inl SyntaxError), w)
      | Some data \<Rightarrow> (case login_finish r data w of (res, w') \<Rightarrow> Some (Finished res, w')))"
| "resume t e w = None"

text \<open>What the page does next: a new call of \<^verbatim>\<open>request\<close> or \<^verbatim>\<open>login\<close>,
  the logout button (\<^verbatim>\<open>api.clearToken()\<close>), or the resumption of a suspended
  task.\<close>

datatype action =
    StartRequest string options
  | StartLogin string string
  | Logout
  | Resume nat event

fun step :: "action \<Rightarrow> world \<times> task list \<Rightarrow> (world \<times> task list) option" where
  "step (StartRequest endpoint opts) (w, ts) =
     (case start_request endpoint opts w of (t, w') \<Rightarrow> Some (w', ts @ [t]))"
| "step (StartLogin u p) (w, ts) =
     (case start_login u p w of (t, w') \<Rightarrow> Some (w', ts @ [t]))"
| "step Logout (w, ts) = Some (clearToken w, ts)"
| "step (Resume i e) (w, ts) =
     (if i < length ts then
        (case resume (ts ! i) e w of
           None \<Rightarrow> None
         | Some (t, w') \<Rightarrow> Some (w', ts[i := t]))
      else None)"

fun run :: "action list \<Rightarrow> world \<times> task list \<Rightarrow> (world \<times> task list) option" where
  "run [] s = Some s"
| "run (a # as) s = (case step a s of None \<Rightarrow> None | Some s' \<Rightarrow> run as s')"

text \<open>One task alone against a service: a task waiting for a response gets the
  service's answer to the call issued last, any other task just goes on. \<open>drive\<close>
  resumes the task until it has finished, at most \<open>n\<close> times.\<close>

fun next_event :: "network \<Rightarrow> task \<Rightarrow> world \<Rightarrow> event" where
  "next_event net (AwaitRenewalJson ctx r) w = Continue"
| "next_event net (AwaitRenewal ctx b) w = Continue"
| "next_event net (AwaitLoginJson r) w = Continue"
| "next_event net t w = Arrives (net (butlast (fetched w)) (last (fetched w)))"

fun drive :: "nat \<Rightarrow> network \<Rightarrow> task \<times> world \<Rightarrow> ((js_error + jsval) \<times> world) option" where
  "drive n net (Finished res, w) = Some (res, w)"
| "drive 0 net (t, w) = None"
| "drive (Suc n) net (t, w) =
     (case resume t (next_event net t w) w of
        None \<Rightarrow> None
      | Some s \<Rightarrow> drive n net s)"

definition renewal_calls :: "world \<Rightarrow> fetch_call list" where
  "renewal_calls w =
     filter (\<lambda>c. prefix (API_BASE_URL @ ''/auth/refresh'') (url c)) (fetched w)"

text \<open>What a reader of the credentials sees: the field and the two stored entries.\<close>

definition credentials :: "world \<Rightarrow> jsval \<times> string option \<times> string option" where
  "credentials w = (token w, storage w ''access_token'', storage w ''refresh_token'')"

text \<open>The credentials one successful answer of the service carries.\<close>

definition carried :: "response \<Rightarrow> (jsval \<times> string option \<times> string option) option" where
  "carried r =
     (if ok r then
        (case json_body r of
           None \<Rightarrow> None
         | Some data \<Rightarrow>
             (case (get_prop data ''access_token'', get_prop data ''refresh_token'') of
                (Inr a, Inr rt) \<Rightarrow> Some (a, Some (to_string a), Some (to_string rt))
              | _ \<Rightarrow> None))
      else None)"

fun delivered :: "action list \<Rightarrow> response list" where
  "delivered [] = []"
| "delivered (Resume i (Arrives (Responded r)) # as) = r # delivered as"
| "delivered (a # as) = delivered as"


text \<open>The responses an event hands to a task, and the condition under which a task
  holds a response: it was delivered, and a renewal keeps only a successful one.\<close>

fun arrived :: "event \<Rightarrow> response set" where
  "arrived (Arrives (Responded r)) = {r}"
| "arrived e = {}"

fun task_holds :: "response set \<Rightarrow> task \<Rightarrow> bool" where
  "task_holds D (AwaitRenewalJson ctx r) = (r \<in> D \<and> ok r)"
| "task_holds D (AwaitLoginJson r) = (r \<in> D)"
| "task_holds D t = True"

text \<open>The credentials a reader may see after the responses \<open>D\<close> were delivered to a
  client that started with \<open>w0\<close>: those of \<open>w0\<close>, none at all, or those one response
  carries.\<close>

definition readable :: "world \<Rightarrow> response set \<Rightarrow> (jsval \<times> string option \<times> string option) set" where
  "readable w0 D = {credentials w0, (Null, None, None)} \<union> {p. \<exists>r\<in>D. carried r = Some p}"

section \<open>Example services and sessions\<close>

text \<open>A service that answers the k-th call with the k-th outcome of a script, and is
  unreachable afterwards.\<close>

definition scripted :: "fetch_outcome list \<Rightarrow> network" where
  "scripted outs log c = (if length log < length outs then outs ! length log else Rejected)"

definition unauthorized :: response where
  "unauthorized =
     \<lparr>status = 401, content_type = Some ''application/json'',
      json_body = Some (Obj [(''detail'', Str ''Could not validate credentials'')]),
      text_body = []\<rparr>"

definition renewed :: response where
  "renewed =
     \<lparr>status = 200, content_type = Some ''application/json'',
      json_body = Some (Obj [(''access_token'', Str ''a1''), (''refresh_token'', Str ''r1''),
                             (''token_type'', Str ''bearer''), (''expires_in'', Num 1800)]),
      text_body = []\<rparr>"

definition no_content :: response where
  "no_content = \<lparr>status = 204, content_type = None, json_body = None, text_body = []\<rparr>"

definition empty_record :: response where
  "empty_record =
     \<lparr>status = 200, content_type = Some ''application/json'', json_body = Some (Obj []),
      text_body = []\<rparr>"

definition no_options :: options where
  "no_options = \<lparr>opt_method = None, opt_body = None, opt_headers = []\<rparr>"

text \<open>A client constructed over a stored pair, and one constructed over empty storage.\<close>

definition session :: world where
  "session = constructor [''access_token'' \<mapsto> ''a0'', ''refresh_token'' \<mapsto> ''r0'']"

definition anonymous :: world where
  "anonymous = constructor Map.empty"

text \<open>Executions: one request through a successful renewal; two requests that are both
  answered 401 before either renewal is answered; and the same two requests when the
  service accepts the first renewal and rejects the second.\<close>

definition one_renewal :: "action list" where
  "one_renewal =
     [StartRequest ''/devices'' no_options,
      Resume 0 (Arrives (Responded unauthorized)),
      Resume 0 (Arrives (Responded renewed)),
      Resume 0 Continue]"

definition two_unauthorized :: "action list" where
  "two_unauthorized =
     [StartRequest ''/devices'' no_options,
      StartRequest ''/alerts'' no_options,
      Resume 0 (Arrives (Responded unauthorized)),
      Resume 1 (Arrives (Responded unauthorized))]"

definition racing_renewals :: "action list" where
  "racing_renewals =
     two_unauthorized @
     [Resume 0 (Arrives (Responded renewed)),
      Resume 0 Continue,
      Resume 0 Continue,
      Resume 1 (Arrives (Responded unauthorized)),
      Resume 1 Continue]"

text \<open>Two requests of one client, both suspended at their first \<^verbatim>\<open>await fetch\<close>,
  and the world with their two calls issued.\<close>

definition two_waiting :: "task list" where
  "two_waiting =
     [fst (start_request ''/devices'' no_options session),
      fst (start_request ''/alerts'' no_options session)]"

definition two_issued :: world where
  "two_issued =
     issue (first_attempt ''/alerts'' no_options session)
       (issue (first_attempt ''/devices'' no_options session) session)"

section \<open>The event channel of App\<close>

text \<open>
  The message handlers call into the page and the view managers; the page is not part
  of the client, so its elements are taken to exist and each call is recorded. The
  record keeps the fields of \<^verbatim>\<open>App\<close>, the status last given to
  \<^verbatim>\<open>updateConnectionStatus\<close>, the delays of the pending
  \<^verbatim>\<open>setTimeout(() => this.connectWebSocket(), delay)\<close> timers, the number of
  sockets constructed, the sockets whose \<^verbatim>\<open>close\<close> event has not fired yet, and
  the exceptions that left a socket listener (the browser reports them and goes on).
\<close>

datatype view_call =
    Toast string string
  | AlertCountPlusOne
  | LoadAlerts
  | TotalDevicesPlusOne
  | LoadDevices
  | ScanFinished
  | LoadDashboard

record app =
  currentPage :: string
  websocket :: "nat option"
  isScanning :: bool
  connection :: "string option"
  timers :: "nat list"
  sockets :: nat
  live :: "nat list"
  views :: "view_call list"
  uncaught :: "js_error list"

definition new_app :: app where
  "new_app =
     \<lparr>currentPage = ''dashboard'', websocket = None, isScanning = False, connection = None,
      timers = [], sockets = 0, live = [], views = [], uncaught = []\<rparr>"

definition updateConnectionStatus :: "string \<Rightarrow> app \<Rightarrow> app" where
  "updateConnectionStatus st a = a\<lparr>connection := Some st\<rparr>"

text \<open>\<^verbatim>\<open>connectWebSocket\<close>: \<open>constructed\<close> tells whether
  \<^verbatim>\<open>new WebSocket(wsUrl)\<close> returns or throws; in the second case the
  \<^verbatim>\<open>catch\<close> branch runs.\<close>

definition connectWebSocket :: "bool \<Rightarrow> app \<Rightarrow> app" where
  "connectWebSocket constructed a =
     (if constructed
      then a\<lparr>websocket := Some (sockets a), live := live a @ [sockets a],
             sockets := Suc (sockets a)\<rparr>
      else updateConnectionStatus ''disconnected'' a)"

definition onopen :: "app \<Rightarrow> app" where
  "onopen a = updateConnectionStatus ''connected'' a"

definition onclose :: "app \<Rightarrow> app" where
  "onclose a =
     (let a1 = updateConnectionStatus ''disconnected'' a
      in a1\<lparr>timers := timers a1 @ [5000]\<rparr>)"

definition onerror :: "app \<Rightarrow> app" where
  "onerror a = updateConnectionStatus ''disconnected'' a"

text \<open>A read of a member of a value already known not to be \<^verbatim>\<open>null\<close> or
  \<^verbatim>\<open>undefined\<close>, and a read as an argument, where it throws like any other.\<close>

definition member :: "jsval \<Rightarrow> string \<Rightarrow> jsval" where
  "member v k = (case get_prop v k of Inl e \<Rightarrow> Undefined | Inr x \<Rightarrow> x)"

definition call_views :: "view_call list \<Rightarrow> app \<Rightarrow> app" where
  "call_views vs a = a\<lparr>views := views a @ vs\<rparr>"

definition handleNewAlert :: "jsval \<Rightarrow> app \<Rightarrow> js_error option \<times> app" where
  "handleNewAlert alert a =
     (case get_prop alert ''message'' of
        Inl e \<Rightarrow> (Some e, a)
      | Inr m \<Rightarrow>
          (None,
           call_views
             ([Toast (to_string m) ''warning'', AlertCountPlusOne] @
              (if currentPage a = ''alerts'' then [LoadAlerts] else [])) a))"

definition handleDeviceUpdate :: "jsval \<Rightarrow> jsval \<Rightarrow> app \<Rightarrow> js_error option \<times> app" where
  "handleDeviceUpdate device ev a =
     (None,
      call_views
        ((if ev = Str ''discovered'' then [TotalDevicesPlusOne] else []) @
         (if currentPage a = ''devices'' then [LoadDevices] else [])) a)"

definition handleScanUpdate :: "jsval \<Rightarrow> app \<Rightarrow> js_error option \<times> app" where
  "handleScanUpdate data a =
     (case get_prop data ''status'' of
        Inl e \<Rightarrow> (Some e, a)
      | Inr st \<Rightarrow>
          if st = Str ''completed'' \<or> st = Str ''failed'' then
            (None,
             call_views
               (ScanFinished #
                (if st = Str ''completed''
                 then [Toast (''Scan complete: '' @ to_string (member data ''total_devices'') @
                              '' devices found, '' @ to_string (member data ''new_devices'') @
                              '' new'') ''success'',
                       LoadDashboard]
                 else [Toast (''Scan failed: '' @ to_string (member data ''error'')) ''error'']))
               (a\<lparr>isScanning := False\<rparr>))
          else (None, a))"

definition handleWebSocketMessage :: "jsval \<Rightarrow> app \<Rightarrow> js_error option \<times> app" where
  "handleWebSocketMessage message a =
     (case get_prop message ''type'' of
        Inl e \<Rightarrow> (Some e, a)
      | Inr ty \<Rightarrow>
          if ty = Str ''alert'' then handleNewAlert (member message ''data'') a
          else if ty = Str ''device_update''
          then handleDeviceUpdate (member message ''data'') (member message ''event'') a
          else if ty = Str ''scan_update'' then handleScanUpdate (member message ''data'') a
          else (None, a))"

text \<open>The \<^verbatim>\<open>onmessage\<close> listener; a frame is the result of
  \<^verbatim>\<open>JSON.parse(event.data)\<close>, \<open>None\<close> when the text does not parse.\<close>

definition onmessage :: "jsval option \<Rightarrow> app \<Rightarrow> js_error option \<times> app" where
  "onmessage frame a =
     (case frame of
        None \<Rightarrow> (Some SyntaxError, a)
      | Some message \<Rightarrow> handleWebSocketMessage message a)"

text \<open>The browser runs a listener to its end or to its exception, reports the
  exception, and keeps the socket and its listeners as they are.\<close>

definition reported :: "js_error option \<times> app \<Rightarrow> app" where
  "reported res =
     (case res of
        (None, a) \<Rightarrow> a
      | (Some e, a) \<Rightarrow> a\<lparr>uncaught := uncaught a @ [e]\<rparr>)"

datatype ws_event =
    Opened nat
  | Closed nat
  | Errored nat
  | Message nat "jsval option"
  | TimerFired bool

text \<open>One event of the browser: an event of a socket that has not closed yet runs the
  listener \<^verbatim>\<open>connectWebSocket\<close> gave to every socket; the oldest pending timer
  runs \<^verbatim>\<open>connectWebSocket\<close>. Any other event cannot happen.\<close>

fun channel_step :: "ws_event \<Rightarrow> app \<Rightarrow> app option" where
  "channel_step (Opened k) a = (if k \<in> set (live a) then Some (onopen a) else None)"
| "channel_step (Closed k) a =
     (if k \<in> set (live a) then Some (onclose (a\<lparr>live := removeAll k (live a)\<rparr>)) else None)"
| "channel_step (Errored k) a = (if k \<in> set (live a) then Some (onerror a) else None)"
| "channel_step (Message k frame) a =
     (if k \<in> set (live a) then Some (reported (onmessage frame a)) else None)"
| "channel_step (TimerFired constructed) a =
     (case timers a of
        [] \<Rightarrow> None
      | d # ds \<Rightarrow> Some (connectWebSocket constructed (a\<lparr>timers := ds\<rparr>)))"

fun run_channel :: "ws_event list \<Rightarrow> app \<Rightarrow> app option" where
  "run_channel [] a = Some a"
| "run_channel (e # es) a =
     (case channel_step e a of None \<Rightarrow> None | Some a' \<Rightarrow> run_channel es a')"

text \<open>\<open>n\<close> rounds of: the current socket closes, the timer fires, a socket is
  constructed.\<close>

fun reconnects :: "nat \<Rightarrow> app \<Rightarrow> app option" where
  "reconnects 0 a = Some a"
| "reconnects (Suc n) a =
     (case websocket a of
        None \<Rightarrow> None
      | Some k \<Rightarrow> 
          (case run_channel [Closed k, TimerFired True] a of
             None \<Rightarrow> None
           | Some a' \<Rightarrow> reconnects n a'))"






definition connected_app :: app where
  "connected_app = connectWebSocket True new_app"


section \<open>Properties of a single request\<close>

lemmas client_defs = request_def fetch_def issue_def Let_def first_attempt_def replay_def
  request_headers_def request_call_def refreshToken_def refresh_call_def store_renewed_def
  setToken_def setItem_def getItem_def clearToken_def removeItem_def reload_def
  handleResponse_def ok_def spread_def constructor_def API_BASE_URL_def login_def
  login_call_def login_finish_def

lemmas example_defs = scripted_def unauthorized_def renewed_def no_content_def
  empty_record_def no_options_def session_def anonymous_def


lemma refreshToken_rejected:
  "storage w ''refresh_token'' = Some rt \<Longrightarrow> rt \<noteq> [] \<Longrightarrow>
   net (fetched w) (refresh_call rt) = Responded r \<Longrightarrow> \<not> ok r \<Longrightarrow>
   refreshToken net w = (False, issue (refresh_call rt) w)"
  by (simp add: refreshToken_def Let_def getItem_def fetch_def issue_def)

lemma refreshToken_unreachable:
  "storage w ''refresh_token'' = Some rt \<Longrightarrow> rt \<noteq> [] \<Longrightarrow>
   net (fetched w) (refresh_call rt) = Rejected \<Longrightarrow>
   refreshToken net w = (False, issue (refresh_call rt) w)"
  by (simp add: refreshToken_def Let_def getItem_def fetch_def issue_def)

lemma get_prop_both:
  "get_prop data k = Inr v \<Longrightarrow> \<exists>v'. get_prop data k' = Inr v'"
  by (cases data) auto

lemma store_renewed_True:
  "store_renewed data w = (True, w') \<Longrightarrow>
     \<exists>a rt. get_prop data ''access_token'' = Inr a \<and> get_prop data ''refresh_token'' = Inr rt \<and>
       w' = setItem ''refresh_token'' rt (setToken a w)"
  by (auto simp: store_renewed_def split: sum.splits)

lemma store_renewed_False:
  "store_renewed data w = (False, w') \<Longrightarrow> w' = w"
  using get_prop_both[of data "''access_token''" _ "''refresh_token''"]
  by (auto simp: store_renewed_def split: sum.splits)

lemma refreshToken_True:
  assumes "refreshToken net w = (True, w')"
  shows "\<exists>rt r data a rt'. storage w ''refresh_token'' = Some rt \<and> rt \<noteq> [] \<and>
           net (fetched w) (refresh_call rt) = Responded r \<and> ok r \<and> json_body r = Some data \<and>
           get_prop data ''access_token'' = Inr a \<and> get_prop data ''refresh_token'' = Inr rt' \<and>
           w' = setItem ''refresh_token'' rt' (setToken a (issue (refresh_call rt) w))"
  using assms
  by (auto simp: refreshToken_def Let_def getItem_def fetch_def issue_def
      split: option.splits fetch_outcome.splits if_splits dest!: store_renewed_True)

lemma handleResponse_401:
  "status r = 401 \<Longrightarrow> \<exists>e. handleResponse r = Inl e"
  by (auto simp: handleResponse_def ok_def split: option.splits sum.splits)

text \<open>
  C2, as the code has it. A request whose first attempt is answered 401, whose renewal
  succeeds and whose replay is answered 401 again ends after exactly one renewal call
  and one replay: the calls issued are the first attempt, the renewal and the replay,
  and nothing else. Its outcome is the error \<^verbatim>\<open>handleResponse\<close> throws for the
  replay's answer (the answer's \<^verbatim>\<open>detail\<close>, or \<^verbatim>\<open>Request failed\<close>), the
  renewed credentials stay in place and the page is not reloaded. The outcome is not
  \<^verbatim>\<open>Session expired\<close>: that error is thrown on a failed renewal only.
\<close>

theorem replay_unauthorized_ends_request:
  assumes "net (fetched w) (first_attempt endpoint opts w) = Responded r"
      and "status r = 401"
      and "refreshToken net (issue (first_attempt endpoint opts w) w) = (True, w2)"
      and "net (fetched w2) (replay endpoint opts w w2) = Responded r2"
      and "status r2 = 401"
  shows "request net endpoint opts w =
           (handleResponse r2, w2\<lparr>fetched := fetched w2 @ [replay endpoint opts w w2]\<rparr>) \<and>
         (\<exists>e. handleResponse r2 = Inl e) \<and>
         (\<exists>rt. storage w ''refresh_token'' = Some rt \<and>
            fetched w2 = fetched w @ [first_attempt endpoint opts w, refresh_call rt]) \<and>
         reloads w2 = reloads w"
proof -
  from refreshToken_True[OF assms(3)] obtain rt where
    rt: "storage w ''refresh_token'' = Some rt"
        "fetched w2 = fetched w @ [first_attempt endpoint opts w, refresh_call rt]"
        "reloads w2 = reloads w"
    by (auto simp: issue_def setItem_def setToken_def)
  have "request net endpoint opts w =
           (handleResponse r2, w2\<lparr>fetched := fetched w2 @ [replay endpoint opts w w2]\<rparr>)"
    using assms
    by (simp add: request_def fetch_def issue_def Let_def first_attempt_def replay_def)
  with rt handleResponse_401[OF assms(5)] show ?thesis by simp
qed

theorem replay_unauthorized_ends_request_witness:
  "scripted [Responded unauthorized, Responded renewed, Responded unauthorized]
     (fetched session) (first_attempt ''/devices'' no_options session) = Responded unauthorized \<and>
   status unauthorized = 401 \<and>
   fst (refreshToken (scripted [Responded unauthorized, Responded renewed, Responded unauthorized])
          (issue (first_attempt ''/devices'' no_options session) session)) = True \<and>
   scripted [Responded unauthorized, Responded renewed, Responded unauthorized]
     (fetched (snd (refreshToken
        (scripted [Responded unauthorized, Responded renewed, Responded unauthorized])
        (issue (first_attempt ''/devices'' no_options session) session))))
     (replay ''/devices'' no_options session (snd (refreshToken
        (scripted [Responded unauthorized, Responded renewed, Responded unauthorized])
        (issue (first_attempt ''/devices'' no_options session) session))))
     = Responded unauthorized \<and>
   fst (request (scripted [Responded unauthorized, Responded renewed, Responded unauthorized])
          ''/devices'' no_options session) = handleResponse unauthorized \<and>
   map url (fetched (snd (request
       (scripted [Responded unauthorized, Responded renewed, Responded unauthorized])
          ''/devices'' no_options session))) =
     [''http://localhost:8000/api/devices'',
      ''http://localhost:8000/api/auth/refresh?refresh_token=r0'',
      ''http://localhost:8000/api/devices'']"
proof -
  let ?net = "scripted [Responded unauthorized, Responded renewed, Responded unauthorized]"
  let ?w1 = "issue (first_attempt ''/devices'' no_options session) session"
  let ?w2 = "snd (refreshToken ?net ?w1)"
  have h1: "?net (fetched session) (first_attempt ''/devices'' no_options session)
              = Responded unauthorized"
    by (simp add: client_defs example_defs)
  have h2: "status unauthorized = 401"
    by (simp add: unauthorized_def)
  have h3: "refreshToken ?net ?w1 = (True, ?w2)"
    by (simp add: client_defs example_defs)
  have h4: "?net (fetched ?w2) (replay ''/devices'' no_options session ?w2) = Responded unauthorized"
    by (simp add: client_defs example_defs)
  have h5: "map url (fetched ?w2 @ [replay ''/devices'' no_options session ?w2]) =
     [''http://localhost:8000/api/devices'',
      ''http://localhost:8000/api/auth/refresh?refresh_token=r0'',
      ''http://localhost:8000/api/devices'']"
    by (simp add: client_defs example_defs)
  have h6: "fst (refreshToken ?net ?w1) = True"
    by (simp add: client_defs example_defs)
  from replay_unauthorized_ends_request[OF h1 h2 h3 h4 h2]
  have r: "request ?net ''/devices'' no_options session =
      (handleResponse unauthorized,
       ?w2\<lparr>fetched := fetched ?w2 @ [replay ''/devices'' no_options session ?w2]\<rparr>)"
    by (rule conjunct1)
  have c1: "fst (request ?net ''/devices'' no_options session) = handleResponse unauthorized"
    by (simp only: r fst_conv)
  have c2: "map url (fetched (snd (request ?net ''/devices'' no_options session))) =
     [''http://localhost:8000/api/devices'',
      ''http://localhost:8000/api/auth/refresh?refresh_token=r0'',
      ''http://localhost:8000/api/devices'']"
    using h5 by (simp only: r snd_conv) simp
  from h1 h2 h6 h4 c1 c2 show ?thesis by (intro conjI)
qed

theorem replay_unauthorized_not_session_expired:
  "fst (request (scripted [Responded unauthorized, Responded renewed, Responded unauthorized])
          ''/devices'' no_options session) \<noteq> Inl (Error ''Session expired'') \<and>
   fst (request (scripted [Responded unauthorized, Responded renewed, Responded unauthorized])
          ''/devices'' no_options session) = Inl (Error ''Could not validate credentials'') \<and>
   getItem ''access_token'' (snd (request
       (scripted [Responded unauthorized, Responded renewed, Responded unauthorized])
          ''/devices'' no_options session)) = Str ''a1''"
  by (simp add: client_defs example_defs)



text \<open>
  C7, as the code has it. When a call of the request itself is not answered
  (\<^verbatim>\<open>fetch\<close> rejects), the rejection reaches the caller as it is, no further
  call is issued, and the token and the storage are what they were before the call:
  this holds for the first attempt and for the replay after a renewal, where the
  credentials stay as the renewal left them. When the renewal call is the one that is
  not answered, \<^verbatim>\<open>refreshToken\<close> catches the rejection and returns
  \<^verbatim>\<open>false\<close>: the caller gets \<^verbatim>\<open>Session expired\<close>, not the network
  error, both stored credentials are removed and the page is reloaded; no call follows
  here either.
\<close>

theorem network_failure_surfaces:
  "(net (fetched w) (first_attempt endpoint opts w) = Rejected \<longrightarrow>
      request net endpoint opts w =
        (Inl NetworkError, w\<lparr>fetched := fetched w @ [first_attempt endpoint opts w]\<rparr>)) \<and>
   (net (fetched w) (first_attempt endpoint opts w) = Responded r \<and> status r = 401 \<and>
    refreshToken net (issue (first_attempt endpoint opts w) w) = (True, w2) \<and>
    net (fetched w2) (replay endpoint opts w w2) = Rejected \<longrightarrow>
      request net endpoint opts w =
        (Inl NetworkError, w2\<lparr>fetched := fetched w2 @ [replay endpoint opts w w2]\<rparr>)) \<and>
   (net (fetched w) (first_attempt endpoint opts w) = Responded r \<and> status r = 401 \<and>
    storage w ''refresh_token'' = Some rt \<and> rt \<noteq> [] \<and>
    net (fetched w @ [first_attempt endpoint opts w]) (refresh_call rt) = Rejected \<longrightarrow>
      request net endpoint opts w =
        (Inl (Error ''Session expired''),
         w\<lparr>token := Null,
           storage := (storage w)(''access_token'' := None, ''refresh_token'' := None),
           fetched := fetched w @ [first_attempt endpoint opts w, refresh_call rt],
           reloads := Suc (reloads w)\<rparr>))"
proof -
  have p1: "net (fetched w) (first_attempt endpoint opts w) = Rejected \<longrightarrow>
      request net endpoint opts w =
        (Inl NetworkError, w\<lparr>fetched := fetched w @ [first_attempt endpoint opts w]\<rparr>)"
    by (simp add: request_def fetch_def Let_def first_attempt_def)
  have p2: "net (fetched w) (first_attempt endpoint opts w) = Responded r \<and> status r = 401 \<and>
    refreshToken net (issue (first_attempt endpoint opts w) w) = (True, w2) \<and>
    net (fetched w2) (replay endpoint opts w w2) = Rejected \<longrightarrow>
      request net endpoint opts w =
        (Inl NetworkError, w2\<lparr>fetched := fetched w2 @ [replay endpoint opts w w2]\<rparr>)"
    by (simp add: request_def fetch_def issue_def Let_def first_attempt_def replay_def)
  have p3: "net (fetched w) (first_attempt endpoint opts w) = Responded r \<and> status r = 401 \<and>
    storage w ''refresh_token'' = Some rt \<and> rt \<noteq> [] \<and>
    net (fetched w @ [first_attempt endpoint opts w]) (refresh_call rt) = Rejected \<longrightarrow>
      request net endpoint opts w =
        (Inl (Error ''Session expired''),
         w\<lparr>token := Null,
           storage := (storage w)(''access_token'' := None, ''refresh_token'' := None),
           fetched := fetched w @ [first_attempt endpoint opts w, refresh_call rt],
           reloads := Suc (reloads w)\<rparr>)"
    by (simp add: request_def fetch_def Let_def first_attempt_def refreshToken_def getItem_def
        clearToken_def removeItem_def reload_def)
  from p1 p2 p3 show ?thesis by (intro conjI)
qed

theorem network_failure_surfaces_witness:
  "scripted [] (fetched session) (first_attempt ''/devices'' no_options session) = Rejected \<and>
   request (scripted []) ''/devices'' no_options session =
     (Inl NetworkError,
      session\<lparr>fetched := fetched session @ [first_attempt ''/devices'' no_options session]\<rparr>) \<and>
   scripted [Responded unauthorized, Responded renewed]
     (fetched session) (first_attempt ''/devices'' no_options session) = Responded unauthorized \<and>
   status unauthorized = 401 \<and>
   fst (refreshToken (scripted [Responded unauthorized, Responded renewed])
          (issue (first_attempt ''/devices'' no_options session) session)) = True \<and>
   scripted [Responded unauthorized, Responded renewed]
     (fetched (snd (refreshToken (scripted [Responded unauthorized, Responded renewed])
        (issue (first_attempt ''/devices'' no_options session) session))))
     (replay ''/devices'' no_options session
        (snd (refreshToken (scripted [Responded unauthorized, Responded renewed])
           (issue (first_attempt ''/devices'' no_options session) session))))
     = Rejected \<and>
   fst (request (scripted [Responded unauthorized, Responded renewed])
          ''/devices'' no_options session) = Inl NetworkError \<and>
   getItem ''access_token'' (snd (request (scripted [Responded unauthorized, Responded renewed])
          ''/devices'' no_options session)) = Str ''a1'' \<and>
   getItem ''refresh_token'' (snd (request (scripted [Responded unauthorized, Responded renewed])
          ''/devices'' no_options session)) = Str ''r1'' \<and>
   scripted [Responded unauthorized]
     (fetched session) (first_attempt ''/devices'' no_options session) = Responded unauthorized \<and>
   storage session ''refresh_token'' = Some ''r0'' \<and>
   scripted [Responded unauthorized]
     (fetched session @ [first_attempt ''/devices'' no_options session]) (refresh_call ''r0'')
     = Rejected \<and>
   request (scripted [Responded unauthorized]) ''/devices'' no_options session =
     (Inl (Error ''Session expired''),
      session\<lparr>token := Null,
        storage := (storage session)(''access_token'' := None, ''refresh_token'' := None),
        fetched := fetched session @
          [first_attempt ''/devices'' no_options session, refresh_call ''r0''],
        reloads := Suc (reloads session)\<rparr>)"
proof -
  let ?net = "scripted [Responded unauthorized, Responded renewed]"
  let ?w1 = "issue (first_attempt ''/devices'' no_options session) session"
  let ?w2 = "snd (refreshToken ?net ?w1)"
  have a1: "scripted [] (fetched session) (first_attempt ''/devices'' no_options session) = Rejected"
    by (simp add: scripted_def)
  have h1: "?net (fetched session) (first_attempt ''/devices'' no_options session)
              = Responded unauthorized \<and> status unauthorized = 401"
    by (simp add: client_defs example_defs)
  have h3: "refreshToken ?net ?w1 = (True, ?w2)"
    by (simp add: client_defs example_defs)
  have h4: "?net (fetched ?w2) (replay ''/devices'' no_options session ?w2) = Rejected"
    by (simp add: client_defs example_defs)
  have h5: "getItem ''access_token'' ?w2 = Str ''a1''"
    by (simp add: client_defs example_defs)
  have h6: "getItem ''refresh_token'' ?w2 = Str ''r1''"
    by (simp add: client_defs example_defs)
  have h7: "fst (refreshToken ?net ?w1) = True"
    by (simp add: client_defs example_defs)
  have g1: "scripted [Responded unauthorized]
     (fetched session) (first_attempt ''/devices'' no_options session) = Responded unauthorized"
    by (simp add: client_defs example_defs)
  have g2: "storage session ''refresh_token'' = Some ''r0''"
    by (simp add: client_defs example_defs)
  have g3: "''r0'' \<noteq> []"
    by simp
  have g4: "scripted [Responded unauthorized]
     (fetched session @ [first_attempt ''/devices'' no_options session]) (refresh_call ''r0'')
     = Rejected"
    by (simp add: client_defs example_defs)
  from network_failure_surfaces[of "scripted []" session "''/devices''" no_options] a1
  have c1: "request (scripted []) ''/devices'' no_options session =
     (Inl NetworkError,
      session\<lparr>fetched := fetched session @ [first_attempt ''/devices'' no_options session]\<rparr>)"
    by blast
  from network_failure_surfaces[of ?net session "''/devices''" no_options unauthorized ?w2]
       h1 h3 h4
  have r: "request ?net ''/devices'' no_options session =
     (Inl NetworkError,
      ?w2\<lparr>fetched := fetched ?w2 @ [replay ''/devices'' no_options session ?w2]\<rparr>)"
    by blast
  have c2: "fst (request ?net ''/devices'' no_options session) = Inl NetworkError"
    by (simp only: r fst_conv)
  have c3: "getItem ''access_token'' (snd (request ?net ''/devices'' no_options session))
              = Str ''a1''"
    using h5 by (simp only: r snd_conv) (simp add: getItem_def)
  have c4: "getItem ''refresh_token'' (snd (request ?net ''/devices'' no_options session))
              = Str ''r1''"
    using h6 by (simp only: r snd_conv) (simp add: getItem_def)
  from h1 have h1a: "?net (fetched session) (first_attempt ''/devices'' no_options session)
              = Responded unauthorized" and h1b: "status unauthorized = 401"
    by blast+
  from network_failure_surfaces[where net = "scripted [Responded unauthorized]" and w = session
      and endpoint = "''/devices''" and opts = no_options and r = unauthorized and rt = "''r0''"]
       g1 h1b g2 g3 g4
  have c5: "request (scripted [Responded unauthorized]) ''/devices'' no_options session =
     (Inl (Error ''Session expired''),
      session\<lparr>token := Null,
        storage := (storage session)(''access_token'' := None, ''refresh_token'' := None),
        fetched := fetched session @
          [first_attempt ''/devices'' no_options session, refresh_call ''r0''],
        reloads := Suc (reloads session)\<rparr>)"
    by blast
  from a1 c1 h1a h1b h7 h4 c2 c3 c4 g1 g2 g4 c5 show ?thesis by (intro conjI)
qed

theorem renewal_network_failure_expires_session:
  "scripted [Responded unauthorized] [first_attempt ''/devices'' no_options session]
     (refresh_call ''r0'') = Rejected \<and>
   map url (fetched (snd
     (request (scripted [Responded unauthorized]) ''/devices'' no_options session))) =
     [''http://localhost:8000/api/devices'',
      ''http://localhost:8000/api/auth/refresh?refresh_token=r0''] \<and>
   fst (request (scripted [Responded unauthorized]) ''/devices'' no_options session)
     \<noteq> Inl NetworkError \<and>
   fst (request (scripted [Responded unauthorized]) ''/devices'' no_options session)
     = Inl (Error ''Session expired'') \<and>
   getItem ''access_token'' session = Str ''a0'' \<and>
   getItem ''refresh_token'' session = Str ''r0'' \<and>
   getItem ''access_token''
     (snd (request (scripted [Responded unauthorized]) ''/devices'' no_options session)) = Null \<and>
   getItem ''refresh_token''
     (snd (request (scripted [Responded unauthorized]) ''/devices'' no_options session)) = Null \<and>
   token (snd (request (scripted [Responded unauthorized]) ''/devices'' no_options session))
     = Null"
  by (simp add: client_defs example_defs)

text \<open>
  C8. A response with status 204 makes \<^verbatim>\<open>handleResponse\<close>, and a request whose
  call it answers, return \<^verbatim>\<open>null\<close>; a JSON response whose body is the empty
  object returns that object, a different value.
\<close>

theorem no_content_is_null:
  "status r = 204 \<Longrightarrow>
     handleResponse r = Inr Null \<and>
     handleResponse empty_record = Inr (Obj []) \<and>
     handleResponse r \<noteq> handleResponse empty_record \<and>
     (net (fetched w) (first_attempt endpoint opts w) = Responded r \<longrightarrow>
        fst (request net endpoint opts w) = Inr Null)"
  by (simp add: request_def fetch_def Let_def first_attempt_def handleResponse_def
      empty_record_def ok_def)

theorem no_content_is_null_witness:
  "status no_content = 204 \<and>
   handleResponse no_content = Inr Null \<and>
   handleResponse no_content \<noteq> handleResponse empty_record \<and>
   scripted [Responded no_content] (fetched session)
      (first_attempt ''/alerts/7'' no_options session) = Responded no_content \<and>
   fst (request (scripted [Responded no_content]) ''/alerts/7'' no_options session) = Inr Null"
proof -
  have h1: "status no_content = 204"
    by (simp add: no_content_def)
  have h2: "scripted [Responded no_content] (fetched session)
      (first_attempt ''/alerts/7'' no_options session) = Responded no_content"
    by (simp add: client_defs example_defs)
  from no_content_is_null[OF h1, of "scripted [Responded no_content]" session "''/alerts/7''"
      no_options] h1 h2
  show ?thesis by simp
qed

text \<open>
  C10. A request issued while the client's token is \<^verbatim>\<open>null\<close> (or empty) carries
  the caller's headers and no \<^verbatim>\<open>Authorization\<close> header of the client's. When it
  is answered 401 and no refresh credential is stored, no renewal call is issued, both
  storage entries are removed, the page is reloaded, and the caller gets
  \<^verbatim>\<open>Session expired\<close> whatever the body of the 401 response is.
\<close>

theorem unauthenticated_401_expires_session:
  assumes "\<not> truthy (token w)"
      and "\<not> truthy (getItem ''refresh_token'' w)"
      and "net (fetched w) (request_call endpoint opts
             (spread [(''Content-Type'', ''application/json'')] (opt_headers opts))) = Responded r"
      and "status r = 401"
  shows "request net endpoint opts w =
     (Inl (Error ''Session expired''),
      w\<lparr>token := Null,
        storage := (storage w)(''access_token'' := None, ''refresh_token'' := None),
        fetched := fetched w @ [request_call endpoint opts
             (spread [(''Content-Type'', ''application/json'')] (opt_headers opts))],
        reloads := Suc (reloads w)\<rparr>)"
  using assms
  by (simp add: request_def request_headers_def fetch_def refreshToken_def Let_def getItem_def
      clearToken_def reload_def removeItem_def)

theorem unauthenticated_401_expires_session_witness:
  "\<not> truthy (token anonymous) \<and>
   \<not> truthy (getItem ''refresh_token'' anonymous) \<and>
   scripted [Responded unauthorized] (fetched anonymous)
     (request_call ''/auth/me'' no_options
        (spread [(''Content-Type'', ''application/json'')] (opt_headers no_options)))
     = Responded unauthorized \<and>
   status unauthorized = 401 \<and>
   fst (request (scripted [Responded unauthorized]) ''/auth/me'' no_options anonymous)
     = Inl (Error ''Session expired'') \<and>
   map headers (fetched (snd
     (request (scripted [Responded unauthorized]) ''/auth/me'' no_options anonymous)))
     = [[(''Content-Type'', ''application/json'')]] \<and>
   reloads (snd (request (scripted [Responded unauthorized]) ''/auth/me'' no_options anonymous))
     = 1"
proof -
  have h1: "\<not> truthy (token anonymous)"
    by (simp add: client_defs example_defs)
  have h2: "\<not> truthy (getItem ''refresh_token'' anonymous)"
    by (simp add: client_defs example_defs)
  have h3: "scripted [Responded unauthorized] (fetched anonymous)
     (request_call ''/auth/me'' no_options
        (spread [(''Content-Type'', ''application/json'')] (opt_headers no_options)))
     = Responded unauthorized"
    by (simp add: client_defs example_defs)
  have h4: "status unauthorized = 401"
    by (simp add: unauthorized_def)
  have h5: "fetched anonymous = [] \<and> reloads anonymous = 0 \<and> opt_headers no_options = []"
    by (simp add: client_defs example_defs)
  from unauthenticated_401_expires_session[where net = "scripted [Responded unauthorized]"
      and w = anonymous and endpoint = "''/auth/me''" and opts = no_options
      and r = unauthorized, OF h1 h2 h3 h4]
  have r: "request (scripted [Responded unauthorized]) ''/auth/me'' no_options anonymous =
     (Inl (Error ''Session expired''),
      anonymous\<lparr>token := Null,
        storage := (storage anonymous)(''access_token'' := None, ''refresh_token'' := None),
        fetched := fetched anonymous @ [request_call ''/auth/me'' no_options
             (spread [(''Content-Type'', ''application/json'')] (opt_headers no_options))],
        reloads := Suc (reloads anonymous)\<rparr>)" .
  have c1: "fst (request (scripted [Responded unauthorized]) ''/auth/me'' no_options anonymous)
     = Inl (Error ''Session expired'')"
    by (simp only: r fst_conv)
  have c2: "map headers (fetched (snd
     (request (scripted [Responded unauthorized]) ''/auth/me'' no_options anonymous)))
     = [[(''Content-Type'', ''application/json'')]]"
    using h5 by (simp only: r snd_conv) (simp add: spread_def request_call_def)
  have c3: "reloads (snd
     (request (scripted [Responded unauthorized]) ''/auth/me'' no_options anonymous)) = 1"
    using h5 by (simp only: r snd_conv) simp
  from h1 h2 h3 h4 c1 c2 c3 show ?thesis by (intro conjI)
qed


section \<open>The token field and the stored access token\<close>

lemma mirrors_constructor: "token_mirrors_store (constructor st)"
  by (simp add: token_mirrors_store_def constructor_def getItem_def Let_def)

lemma mirrors_setToken: "is_string v \<Longrightarrow> token_mirrors_store (setToken v w)"
  by (cases v) (simp_all add: token_mirrors_store_def setToken_def setItem_def getItem_def)

lemma mirrors_clearToken: "token_mirrors_store (clearToken w)"
  by (simp add: token_mirrors_store_def clearToken_def removeItem_def getItem_def)

lemma mirrors_set_refresh:
  "token_mirrors_store w \<Longrightarrow> token_mirrors_store (setItem ''refresh_token'' v w)"
  by (simp add: token_mirrors_store_def setItem_def getItem_def)

lemma mirrors_issue: "token_mirrors_store w \<Longrightarrow> token_mirrors_store (issue c w)"
  by (simp add: token_mirrors_store_def issue_def getItem_def)

lemma mirrors_reload: "token_mirrors_store w \<Longrightarrow> token_mirrors_store (reload w)"
  by (simp add: token_mirrors_store_def reload_def getItem_def)

lemma mirrors_store_renewed:
  assumes "token_mirrors_store w"
      and "\<And>v. get_prop data ''access_token'' = Inr v \<Longrightarrow> is_string v"
  shows "token_mirrors_store (snd (store_renewed data w))"
  using assms
  by (auto simp: store_renewed_def mirrors_setToken mirrors_set_refresh split: sum.splits)

lemma mirrors_login_finish:
  assumes "token_mirrors_store w"
      and "ok r \<Longrightarrow> (\<And>v. get_prop data ''access_token'' = Inr v \<Longrightarrow> is_string v)"
  shows "token_mirrors_store (snd (login_finish r data w))"
  using assms
  by (auto simp: login_finish_def mirrors_setToken mirrors_set_refresh split: sum.splits)

lemma fetch_issue: "fetch net c w = (net (fetched w) c, issue c w)"
  by (simp add: fetch_def issue_def)

lemma mirrors_refreshToken:
  assumes "token_mirrors_store w" and "string_tokens net"
  shows "token_mirrors_store (snd (refreshToken net w))"
proof -
  have "token_mirrors_store (snd (store_renewed data (issue c w)))"
    if "token_call c" "net (fetched w) c = Responded r" "ok r" "json_body r = Some data"
    for c r data
    using that assms mirrors_store_renewed[OF mirrors_issue[OF assms(1)], of data c]
    unfolding string_tokens_def by blast
  moreover have "token_call (refresh_call rt)" for rt
    unfolding token_call_def by blast
  ultimately have "token_mirrors_store (snd (store_renewed data (issue (refresh_call rt) w)))"
    if "net (fetched w) (refresh_call rt) = Responded r" "ok r" "json_body r = Some data"
    for rt r data
    using that by blast
  with assms(1) show ?thesis
    by (auto simp: refreshToken_def Let_def fetch_issue mirrors_issue
        split: fetch_outcome.splits option.splits)
qed

lemma mirrors_login:
  assumes "token_mirrors_store w" and "string_tokens net"
  shows "token_mirrors_store (snd (login net u p w))"
proof -
  have "token_mirrors_store (snd (login_finish r data (issue c w)))"
    if "token_call c" "net (fetched w) c = Responded r" "json_body r = Some data" for c r data
    using that assms mirrors_login_finish[OF mirrors_issue[OF assms(1)], of r data c]
    unfolding string_tokens_def by blast
  moreover have "token_call (login_call u p)"
    unfolding token_call_def by blast
  ultimately have "token_mirrors_store (snd (login_finish r data (issue (login_call u p) w)))"
    if "net (fetched w) (login_call u p) = Responded r" "json_body r = Some data" for r data
    using that by blast
  with assms(1) show ?thesis
    by (auto simp: login_def fetch_issue mirrors_issue
        split: fetch_outcome.splits option.splits)
qed

lemma mirrors_request:
  assumes "token_mirrors_store w" and "string_tokens net"
  shows "token_mirrors_store (snd (request net endpoint opts w))"
proof -
  let ?c = "request_call endpoint opts (request_headers opts w)"
  have w1: "token_mirrors_store (issue ?c w)"
    using assms(1) by (rule mirrors_issue)
  have w2: "token_mirrors_store (snd (refreshToken net (issue ?c w)))"
    using w1 assms(2) by (rule mirrors_refreshToken)
  show ?thesis
    using w1 w2
    by (auto simp: request_def Let_def fetch_issue mirrors_issue mirrors_reload
        mirrors_clearToken split: fetch_outcome.splits prod.splits bool.splits)
qed

lemma mirrors_perform:
  assumes "token_mirrors_store w" and "string_tokens net" and "string_argument op"
  shows "token_mirrors_store (perform net op w)"
  using assms
  by (cases op)
     (simp_all add: mirrors_setToken mirrors_clearToken mirrors_login mirrors_refreshToken
        mirrors_request)

lemma mirrors_fold:
  assumes "string_tokens net"
  shows "token_mirrors_store w \<Longrightarrow> \<forall>op\<in>set ops. string_argument op \<Longrightarrow>
         token_mirrors_store (fold (perform net) ops w)"
proof (induction ops arbitrary: w)
  case Nil
  then show ?case by simp
next
  case (Cons op ops)
  from Cons.prems have "token_mirrors_store (perform net op w)"
    using assms by (simp add: mirrors_perform)
  with Cons show ?case by simp
qed

lemma string_tokens_scripted:
  assumes "\<And>r data v. Responded r \<in> set outs \<Longrightarrow> ok r \<Longrightarrow> json_body r = Some data \<Longrightarrow>
             get_prop data ''access_token'' = Inr v \<Longrightarrow> is_string v"
  shows "string_tokens (scripted outs)"
  unfolding string_tokens_def scripted_def
  using assms by (metis fetch_outcome.distinct(1) nth_mem)

text \<open>
  C9, as the code has it. \<^verbatim>\<open>setToken\<close> stores the string conversion of its
  argument and keeps the argument itself in the field, so the two agree when the
  argument is a string. After construction and any sequence of \<^verbatim>\<open>setToken\<close>,
  \<^verbatim>\<open>clearToken\<close>, \<^verbatim>\<open>login\<close>, \<^verbatim>\<open>refreshToken\<close> and
  \<^verbatim>\<open>request\<close> calls, the field equals the stored \<^verbatim>\<open>access_token\<close>
  (\<^verbatim>\<open>null\<close> when there is none), provided every \<^verbatim>\<open>setToken\<close> argument is a
  string and every \<^verbatim>\<open>access_token\<close> of a successful JSON answer to a login
  or a renewal call is a string.
\<close>

theorem token_mirrors_store_invariant:
  assumes "string_tokens net"
      and "\<forall>op\<in>set ops. string_argument op"
  shows "token_mirrors_store (run_ops net ops (constructor st))"
  unfolding run_ops_def
  using assms mirrors_constructor by (simp add: mirrors_fold)

theorem token_mirrors_store_invariant_witness:
  "string_tokens (scripted [Responded renewed, Responded unauthorized, Responded renewed,
                            Responded no_content]) \<and>
   list_all string_argument
     [OpLogin ''admin'' ''secret'', OpRequest ''/devices'' no_options, OpSetToken (Str ''a2''),
      OpRequest ''/alerts/7'' no_options, OpClearToken] \<and>
   token_mirrors_store
     (run_ops (scripted [Responded renewed, Responded unauthorized, Responded renewed,
                         Responded no_content])
        [OpLogin ''admin'' ''secret'', OpRequest ''/devices'' no_options, OpSetToken (Str ''a2''),
         OpRequest ''/alerts/7'' no_options, OpClearToken]
        (constructor Map.empty))"
proof -
  let ?outs = "[Responded renewed, Responded unauthorized, Responded renewed,
                Responded no_content]"
  let ?ops = "[OpLogin ''admin'' ''secret'', OpRequest ''/devices'' no_options,
               OpSetToken (Str ''a2''), OpRequest ''/alerts/7'' no_options, OpClearToken]"
  have h1: "string_tokens (scripted ?outs)"
    by (rule string_tokens_scripted)
       (auto simp: renewed_def unauthorized_def no_content_def ok_def)
  have h2: "list_all string_argument ?ops"
    by simp
  then have h3: "\<forall>op\<in>set ?ops. string_argument op"
    by (simp only: list_all_iff)
  from token_mirrors_store_invariant[OF h1 h3, of Map.empty] h1 h2
  show ?thesis by (intro conjI)
qed

theorem token_field_differs_from_store:
  "\<not> token_mirrors_store (run_ops (scripted [Responded empty_record]) [OpRefreshToken] session) \<and>
   token (run_ops (scripted [Responded empty_record]) [OpRefreshToken] session) = Undefined \<and>
   getItem ''access_token'' (run_ops (scripted [Responded empty_record]) [OpRefreshToken] session)
     = Str ''undefined'' \<and>
   \<not> token_mirrors_store (run_ops (scripted []) [OpSetToken Null] anonymous)"
  by (simp add: run_ops_def token_mirrors_store_def client_defs example_defs)


section \<open>A task alone runs as the method does\<close>

lemma fetched_issue: "fetched (issue c w) = fetched w @ [c]"
  by (simp add: issue_def)

lemma drive_login:
  "drive (Suc (Suc n)) net (start_login u p w) = Some (login net u p w)"
  by (auto simp: start_login_def login_def fetch_issue fetched_issue
      split: fetch_outcome.splits option.splits prod.splits)

lemma fetched_store_renewed: "fetched (snd (store_renewed data w)) = fetched w"
  by (auto simp: store_renewed_def setToken_def setItem_def split: sum.splits)

lemma drive_after_renewal:
  "drive (Suc (Suc n)) net (AwaitRenewal ctx b, w2) =
     Some (if b then
             (let hs' = AList.update ''Authorization'' (''Bearer '' @ to_string (token w2))
                          (r_headers ctx) in
              case fetch net (request_call (r_endpoint ctx) (r_options ctx) hs') w2 of
                (Rejected, w3) \<Rightarrow> (Inl NetworkError, w3)
              | (Responded r2, w3) \<Rightarrow> (handleResponse r2, w3))
           else (Inl (Error ''Session expired''), reload (clearToken w2)))"
  by (cases b) (auto simp: Let_def fetch_issue fetched_issue split: fetch_outcome.splits)

lemma drive_renewal:
  "drive (Suc (Suc (Suc (Suc n)))) net (start_renewal ctx w) =
     (case refreshToken net w of (b, w2) \<Rightarrow> drive (Suc (Suc n)) net (AwaitRenewal ctx b, w2))"
  by (auto simp: start_renewal_def refreshToken_def Let_def fetch_issue fetched_issue
      fetched_store_renewed split: fetch_outcome.splits option.splits prod.splits)

text \<open>Resumed five times with the answers of the service, the task of a request ends
  with the outcome and in the world \<^verbatim>\<open>request\<close> gives; two resumptions do the
  same for \<^verbatim>\<open>login\<close>.\<close>

lemma drive_request:
  "drive 5 net (start_request endpoint opts w) = Some (request net endpoint opts w)"
proof -
  have 5: "5 = Suc (Suc (Suc (Suc (Suc 0))))" by simp
  show ?thesis
    unfolding 5
    by (auto simp: start_request_def request_def Let_def fetch_issue fetched_issue
        drive_renewal drive_after_renewal
        split: fetch_outcome.splits prod.splits bool.splits)
qed


section \<open>Credentials under interleaving\<close>

lemma readable_mono: "D \<subseteq> D' \<Longrightarrow> readable w0 D \<subseteq> readable w0 D'"
  by (auto simp: readable_def)

lemma task_holds_mono: "D \<subseteq> D' \<Longrightarrow> task_holds D t \<Longrightarrow> task_holds D' t"
  by (cases t) auto

lemma credentials_issue [simp]: "credentials (issue c w) = credentials w"
  by (simp add: credentials_def issue_def)

lemma credentials_reload [simp]: "credentials (reload w) = credentials w"
  by (simp add: credentials_def reload_def)

lemma credentials_clearToken [simp]: "credentials (clearToken w) = (Null, None, None)"
  by (simp add: credentials_def clearToken_def removeItem_def)

lemma credentials_store_renewed:
  "ok r \<Longrightarrow> json_body r = Some data \<Longrightarrow>
     credentials (snd (store_renewed data w)) = credentials w \<or>
     carried r = Some (credentials (snd (store_renewed data w)))"
  using get_prop_both[of data "''access_token''" _ "''refresh_token''"]
  by (auto simp: store_renewed_def carried_def credentials_def setToken_def setItem_def
      split: sum.splits)

lemma credentials_login_finish:
  "json_body r = Some data \<Longrightarrow>
     credentials (snd (login_finish r data w)) = credentials w \<or>
     carried r = Some (credentials (snd (login_finish r data w)))"
  using get_prop_both[of data "''access_token''" _ "''refresh_token''"]
  by (auto simp: login_finish_def carried_def credentials_def setToken_def setItem_def
      split: sum.splits)

lemma credentials_start_renewal:
  "credentials (snd (start_renewal ctx w)) = credentials w"
  by (simp add: start_renewal_def Let_def)

lemma task_holds_start_renewal: "task_holds D (fst (start_renewal ctx w))"
  by (simp add: start_renewal_def Let_def)

lemma store_renewed_readable:
  assumes "r \<in> D" "ok r" "json_body r = Some data" "credentials w \<in> readable w0 D"
  shows "credentials (snd (store_renewed data w)) \<in> readable w0 D"
  using credentials_store_renewed[OF assms(2,3), of w] assms(1,4)
  by (auto simp: readable_def)

lemma login_finish_readable:
  assumes "r \<in> D" "json_body r = Some data" "credentials w \<in> readable w0 D"
  shows "credentials (snd (login_finish r data w)) \<in> readable w0 D"
  using credentials_login_finish[OF assms(2), of w] assms(1,3)
  by (auto simp: readable_def)

lemma resume_readable:
  assumes "resume t e w = Some (t', w')"
      and "task_holds D t"
      and "credentials w \<in> readable w0 D"
  shows "credentials w' \<in> readable w0 (D \<union> arrived e) \<and> task_holds (D \<union> arrived e) t'"
proof -
  have up: "credentials w \<in> readable w0 (D \<union> arrived e)"
    using assms(3) readable_mono[of D "D \<union> arrived e" w0] by auto
  have cleared: "(Null, None, None) \<in> readable w0 (D \<union> arrived e)"
    by (simp add: readable_def)
  show ?thesis
  proof (cases "(t, e, w)" rule: resume.cases)
    case (2 ctx r w)
    show ?thesis
    proof (cases "status r = 401")
      case True
      with 2 assms(1) have sr: "start_renewal ctx w = (t', w')"
        by simp
      from credentials_start_renewal[of ctx w] task_holds_start_renewal[of "D \<union> arrived e" ctx w]
      have "credentials w' = credentials w" "task_holds (D \<union> arrived e) t'"
        by (simp_all add: sr)
      with 2 up show ?thesis by simp
    next
      case False
      with 2 assms up show ?thesis by auto
    qed
  next
    case (5 ctx r w)
    with assms up store_renewed_readable[of r "D \<union> arrived e" _ w w0] show ?thesis
      by (auto split: option.splits prod.splits)
  next
    case (12 r w)
    with assms up login_finish_readable[of r "D \<union> arrived e" _ w w0] show ?thesis
      by (auto split: option.splits prod.splits)
  qed (use assms up cleared in \<open>auto simp: Let_def split: if_splits\<close>)
qed

lemma delivered_single: "set (delivered [a]) = (case a of Resume i e \<Rightarrow> arrived e | _ \<Rightarrow> {})"
  by (cases "[a]" rule: delivered.cases) auto

lemma delivered_Cons: "set (delivered (a # as)) = set (delivered [a]) \<union> set (delivered as)"
  by (cases "a # as" rule: delivered.cases) auto

lemma step_readable:
  assumes "step a (w, ts) = Some (w', ts')"
      and "\<forall>t\<in>set ts. task_holds D t"
      and "credentials w \<in> readable w0 D"
  shows "credentials w' \<in> readable w0 (D \<union> set (delivered [a])) \<and>
         (\<forall>t\<in>set ts'. task_holds (D \<union> set (delivered [a])) t)"
proof (cases a)
  case (StartRequest endpoint opts)
  with assms show ?thesis
    by (auto simp: start_request_def Let_def)
next
  case (StartLogin u p)
  with assms show ?thesis
    by (auto simp: start_login_def)
next
  case Logout
  with assms show ?thesis
    by (auto simp: readable_def)
next
  case (Resume i e)
  with assms obtain t' where
    i: "i < length ts" and r: "resume (ts ! i) e w = Some (t', w')" and ts': "ts' = ts[i := t']"
    by (auto split: if_splits option.splits)
  from i assms(2) have "task_holds D (ts ! i)" by simp
  from resume_readable[OF r this assms(3)]
  have c: "credentials w' \<in> readable w0 (D \<union> arrived e)" and t: "task_holds (D \<union> arrived e) t'"
    by auto
  have "task_holds (D \<union> arrived e) u" if "u \<in> set (ts[i := t'])" for u
    using that t assms(2) task_holds_mono[of D "D \<union> arrived e"]
    by (auto dest!: set_update_subset_insert[THEN subsetD])
  with c ts' Resume show ?thesis
    by (simp add: delivered_single)
qed

lemma run_readable:
  "run as (w, ts) = Some (w', ts') \<Longrightarrow> \<forall>t\<in>set ts. task_holds D t \<Longrightarrow>
   credentials w \<in> readable w0 D \<Longrightarrow>
   credentials w' \<in> readable w0 (D \<union> set (delivered as))"
proof (induction as arbitrary: w ts D)
  case Nil
  then show ?case by simp
next
  case (Cons a as)
  from Cons.prems(1) obtain w1 ts1 where
    s: "step a (w, ts) = Some (w1, ts1)" and r: "run as (w1, ts1) = Some (w', ts')"
    by (auto split: option.splits)
  from step_readable[OF s Cons.prems(2,3)]
  have "credentials w1 \<in> readable w0 (D \<union> set (delivered [a]))"
       "\<forall>t\<in>set ts1. task_holds (D \<union> set (delivered [a])) t"
    by auto
  from Cons.IH[OF r this(2) this(1)] show ?case
    by (simp add: delivered_Cons[of a as] Un_assoc)
qed

text \<open>
  C4. Start a client with no call in flight and let any calls of \<^verbatim>\<open>request\<close>
  and \<^verbatim>\<open>login\<close> and any logouts interleave at their \<^verbatim>\<open>await\<close>s in any
  order. At every point of every such execution the token field and the two stored
  credentials are together those of the start, or together absent, or together the
  credentials carried by one single successful response delivered so far: a renewal
  replaces all of them in one step, and no reader sees the access credential of one
  response beside the refresh credential of another or of the start.
\<close>

theorem credentials_replaced_together:
  assumes "run acts (w, []) = Some (w', ts)"
  shows "credentials w' = credentials w \<or>
         credentials w' = (Null, None, None) \<or>
         (\<exists>r\<in>set (delivered acts). carried r = Some (credentials w'))"
proof -
  have "credentials w \<in> readable w {}"
    by (simp add: readable_def)
  from run_readable[OF assms _ this] show ?thesis
    by (auto simp: readable_def)
qed


lemmas task_defs = start_request_def start_login_def start_renewal_def credentials_def
  carried_def

theorem credentials_replaced_together_witness:
  "map_option (credentials \<circ> fst) (run one_renewal (session, []))
     = Some (Str ''a1'', Some ''a1'', Some ''r1'') \<and>
   credentials session = (Str ''a0'', Some ''a0'', Some ''r0'') \<and>
   carried renewed = Some (Str ''a1'', Some ''a1'', Some ''r1'') \<and>
   (\<exists>w' ts. run one_renewal (session, []) = Some (w', ts) \<and>
      (credentials w' = credentials session \<or>
       credentials w' = (Null, None, None) \<or>
       (\<exists>r\<in>set (delivered one_renewal). carried r = Some (credentials w'))))"
proof -
  have c1: "map_option (credentials \<circ> fst) (run one_renewal (session, []))
     = Some (Str ''a1'', Some ''a1'', Some ''r1'')"
    by (simp add: one_renewal_def task_defs client_defs example_defs)
  have c2: "credentials session = (Str ''a0'', Some ''a0'', Some ''r0'')"
    by (simp add: task_defs client_defs example_defs)
  have c3: "carried renewed = Some (Str ''a1'', Some ''a1'', Some ''r1'')"
    by (simp add: task_defs client_defs example_defs)
  from c1 obtain w' ts where r: "run one_renewal (session, []) = Some (w', ts)"
    by (cases "run one_renewal (session, [])") auto
  from credentials_replaced_together[OF r] r
  have c4: "\<exists>w' ts. run one_renewal (session, []) = Some (w', ts) \<and>
      (credentials w' = credentials session \<or>
       credentials w' = (Null, None, None) \<or>
       (\<exists>r\<in>set (delivered one_renewal). carried r = Some (credentials w')))"
    by blast
  from c1 c2 c3 c4 show ?thesis by (intro conjI)
qed

section \<open>Renewals of requests in flight together\<close>

lemma renewal_calls_append:
  "renewal_calls (w\<lparr>fetched := fetched w @ cs\<rparr>) = renewal_calls w @
     filter (\<lambda>c. prefix (API_BASE_URL @ ''/auth/refresh'') (url c)) cs"
  by (simp add: renewal_calls_def)

lemma refresh_call_is_renewal:
  "prefix (API_BASE_URL @ ''/auth/refresh'') (url (refresh_call rt))"
  by (simp add: refresh_call_def)

lemma unauthorized_starts_renewal:
  assumes "storage w ''refresh_token'' = Some rt" and "rt \<noteq> []"
      and "i < length ts" and "ts ! i = AwaitFirst ctx" and "status r = 401"
  shows "step (Resume i (Arrives (Responded r))) (w, ts) =
           Some (issue (refresh_call rt) w, ts[i := AwaitRenewalFetch ctx])"
  using assms by (simp add: start_renewal_def getItem_def Let_def)

lemma all_unauthorized_all_renew:
  assumes "storage w ''refresh_token'' = Some rt" and "rt \<noteq> []"
  shows "distinct ns \<Longrightarrow> length rs = length ns \<Longrightarrow>
         \<forall>i\<in>set ns. i < length ts \<and> (\<exists>ctx. ts ! i = AwaitFirst ctx) \<Longrightarrow>
         \<forall>r\<in>set rs. status r = 401 \<Longrightarrow>
         \<exists>ts'. run (map2 (\<lambda>i r. Resume i (Arrives (Responded r))) ns rs) (w, ts) =
                  Some (w\<lparr>fetched := fetched w @ replicate (length ns) (refresh_call rt)\<rparr>, ts') \<and>
               length ts' = length ts \<and>
               (\<forall>i\<in>set ns. \<exists>ctx. ts ! i = AwaitFirst ctx \<and> ts' ! i = AwaitRenewalFetch ctx) \<and>
               (\<forall>j. j \<notin> set ns \<longrightarrow> ts' ! j = ts ! j)"
  using assms
proof (induction ns arbitrary: rs w ts)
  case Nil
  then show ?case by simp
next
  case (Cons i ns)
  from Cons.prems(2) obtain r rs' where rs: "rs = r # rs'" "length rs' = length ns"
    by (cases rs) auto
  from Cons.prems(3) obtain ctx where i: "i < length ts" "ts ! i = AwaitFirst ctx"
    by auto
  from Cons.prems(4) rs have r: "status r = 401" "\<forall>r\<in>set rs'. status r = 401"
    by auto
  let ?w1 = "issue (refresh_call rt) w"
  let ?ts1 = "ts[i := AwaitRenewalFetch ctx]"
  have s: "step (Resume i (Arrives (Responded r))) (w, ts) = Some (?w1, ?ts1)"
    using Cons.prems(5,6) i r(1) by (rule unauthorized_starts_renewal)
  have d: "distinct ns" "i \<notin> set ns"
    using Cons.prems(1) by auto
  have t1: "\<forall>j\<in>set ns. j < length ?ts1 \<and> (\<exists>ctx. ?ts1 ! j = AwaitFirst ctx)"
    using Cons.prems(3) d(2) by (auto simp: nth_list_update)
  have st: "storage ?w1 ''refresh_token'' = Some rt"
    using Cons.prems(5) by (simp add: issue_def)
  from Cons.IH[OF d(1) rs(2) t1 r(2) st Cons.prems(6)]
  obtain ts' where
    run: "run (map2 (\<lambda>i r. Resume i (Arrives (Responded r))) ns rs') (?w1, ?ts1) =
            Some (?w1\<lparr>fetched := fetched ?w1 @ replicate (length ns) (refresh_call rt)\<rparr>, ts')"
    and len: "length ts' = length ?ts1"
    and inn: "\<forall>j\<in>set ns. \<exists>ctx. ?ts1 ! j = AwaitFirst ctx \<and> ts' ! j = AwaitRenewalFetch ctx"
    and out: "\<forall>j. j \<notin> set ns \<longrightarrow> ts' ! j = ?ts1 ! j"
    by blast
  have w: "?w1\<lparr>fetched := fetched ?w1 @ replicate (length ns) (refresh_call rt)\<rparr> =
           w\<lparr>fetched := fetched w @ replicate (length (i # ns)) (refresh_call rt)\<rparr>"
    by (simp add: issue_def)
  have "run (map2 (\<lambda>i r. Resume i (Arrives (Responded r))) (i # ns) rs) (w, ts) =
          Some (w\<lparr>fetched := fetched w @ replicate (length (i # ns)) (refresh_call rt)\<rparr>, ts')"
    using s run w rs(1) by simp
  moreover have "length ts' = length ts"
    using len by simp
  moreover have "\<forall>j\<in>set (i # ns). \<exists>ctx. ts ! j = AwaitFirst ctx \<and> ts' ! j = AwaitRenewalFetch ctx"
    using inn out d(2) i by (auto simp: nth_list_update split: if_splits)
  moreover have "\<forall>j. j \<notin> set (i # ns) \<longrightarrow> ts' ! j = ts ! j"
    using out by (auto simp: nth_list_update)
  ultimately show ?case by blast
qed

text \<open>
  C1, as the code has it. The client has no shared renewal: when N requests in flight
  together are each answered 401 while a refresh credential is stored, each of them
  calls \<^verbatim>\<open>refreshToken\<close> for itself, so N renewal calls with the same refresh
  credential are issued and are in flight together, one per request; the stored
  credentials are untouched until a renewal is answered.
\<close>

theorem each_unauthorized_request_renews:
  assumes "storage w ''refresh_token'' = Some rt" and "rt \<noteq> []"
      and "distinct ns" and "length rs = length ns"
      and "\<forall>i\<in>set ns. i < length ts \<and> (\<exists>ctx. ts ! i = AwaitFirst ctx)"
      and "\<forall>r\<in>set rs. status r = 401"
  shows "\<exists>w' ts'. run (map2 (\<lambda>i r. Resume i (Arrives (Responded r))) ns rs) (w, ts) = Some (w', ts') \<and>
           fetched w' = fetched w @ replicate (length ns) (refresh_call rt) \<and>
           length (renewal_calls w') = length (renewal_calls w) + length ns \<and>
           (\<forall>i\<in>set ns. \<exists>ctx. ts' ! i = AwaitRenewalFetch ctx) \<and>
           credentials w' = credentials w"
proof -
  from all_unauthorized_all_renew[OF assms(1,2,3,4,5,6)]
  obtain ts' where
    run: "run (map2 (\<lambda>i r. Resume i (Arrives (Responded r))) ns rs) (w, ts) =
            Some (w\<lparr>fetched := fetched w @ replicate (length ns) (refresh_call rt)\<rparr>, ts')"
    and inn: "\<forall>i\<in>set ns. \<exists>ctx. ts ! i = AwaitFirst ctx \<and> ts' ! i = AwaitRenewalFetch ctx"
    by blast
  let ?w' = "w\<lparr>fetched := fetched w @ replicate (length ns) (refresh_call rt)\<rparr>"
  have "length (renewal_calls ?w') = length (renewal_calls w) + length ns"
    by (simp add: renewal_calls_append refresh_call_is_renewal)
  moreover have "credentials ?w' = credentials w"
    by (simp add: credentials_def)
  moreover have "\<forall>i\<in>set ns. \<exists>ctx. ts' ! i = AwaitRenewalFetch ctx"
    using inn by blast
  ultimately show ?thesis
    using run by simp
qed

theorem each_unauthorized_request_renews_witness:
  "run [StartRequest ''/devices'' no_options, StartRequest ''/alerts'' no_options] (session, [])
     = Some (two_issued, two_waiting) \<and>
   storage two_issued ''refresh_token'' = Some ''r0'' \<and>
   distinct [0, 1 :: nat] \<and>
   list_all (\<lambda>i. i < length two_waiting \<and> (\<exists>ctx. two_waiting ! i = AwaitFirst ctx)) [0, 1] \<and>
   list_all (\<lambda>r. status r = 401) [unauthorized, unauthorized] \<and>
   (\<exists>w' ts'. run [Resume 0 (Arrives (Responded unauthorized)),
                   Resume 1 (Arrives (Responded unauthorized))] (two_issued, two_waiting)
                = Some (w', ts') \<and>
      fetched w' = fetched two_issued @ [refresh_call ''r0'', refresh_call ''r0''] \<and>
      length (renewal_calls w') = length (renewal_calls two_issued) + 2 \<and>
      credentials w' = credentials two_issued)"
proof -
  have h0: "run [StartRequest ''/devices'' no_options, StartRequest ''/alerts'' no_options]
              (session, []) = Some (two_issued, two_waiting)"
    by (simp add: two_issued_def two_waiting_def start_request_def first_attempt_def issue_def
        request_headers_def Let_def)
  have h1: "storage two_issued ''refresh_token'' = Some ''r0''"
    by (simp add: two_issued_def client_defs example_defs)
  have h2: "''r0'' \<noteq> []"
    by simp
  have h3: "distinct [0, 1 :: nat]"
    by simp
  have h4: "length [unauthorized, unauthorized] = length [0, 1 :: nat]"
    by simp
  have h5: "list_all (\<lambda>i. i < length two_waiting \<and> (\<exists>ctx. two_waiting ! i = AwaitFirst ctx))
              [0, 1]"
    by (simp add: two_waiting_def start_request_def Let_def)
  have h6: "list_all (\<lambda>r. status r = 401) [unauthorized, unauthorized]"
    by (simp add: unauthorized_def)
  from h5 have h5': "\<forall>i\<in>set [0, 1]. i < length two_waiting \<and>
                       (\<exists>ctx. two_waiting ! i = AwaitFirst ctx)"
    by (simp only: list_all_iff)
  from h6 have h6': "\<forall>r\<in>set [unauthorized, unauthorized]. status r = 401"
    by (simp only: list_all_iff)
  have e1: "map2 (\<lambda>i r. Resume i (Arrives (Responded r))) [0, 1] [unauthorized, unauthorized] =
              [Resume 0 (Arrives (Responded unauthorized)),
               Resume 1 (Arrives (Responded unauthorized))]"
    by simp
  have e2: "replicate 2 (refresh_call ''r0'') = [refresh_call ''r0'', refresh_call ''r0'']"
    by (simp add: numeral_2_eq_2)
  have e3: "length [0, 1 :: nat] = 2"
    by simp
  from each_unauthorized_request_renews[OF h1 h2 h3 h4 h5' h6']
  have c: "\<exists>w' ts'. run [Resume 0 (Arrives (Responded unauthorized)),
                   Resume 1 (Arrives (Responded unauthorized))] (two_issued, two_waiting)
                = Some (w', ts') \<and>
      fetched w' = fetched two_issued @ [refresh_call ''r0'', refresh_call ''r0''] \<and>
      length (renewal_calls w') = length (renewal_calls two_issued) + 2 \<and>
      credentials w' = credentials two_issued"
    unfolding e1 e3 e2 by blast
  from h0 h1 h3 h5 h6 c show ?thesis by (intro conjI)
qed

theorem two_unauthorized_requests_two_renewals:
  "map_option (\<lambda>(w, ts). length (renewal_calls w)) (run two_unauthorized (session, []))
     = Some 2 \<and>
   map_option (\<lambda>(w, ts). length (renewal_calls w)) (run two_unauthorized (session, []))
     \<noteq> Some 1 \<and>
   map_option (\<lambda>(w, ts). map url (renewal_calls w)) (run two_unauthorized (session, []))
     = Some [''http://localhost:8000/api/auth/refresh?refresh_token=r0'',
             ''http://localhost:8000/api/auth/refresh?refresh_token=r0''] \<and>
   map_option (\<lambda>(w, ts). (ts ! 1, credentials w)) (run racing_renewals (session, []))
     = Some (Finished (Inl (Error ''Session expired'')), (Null, None, None))"
  by (simp add: two_unauthorized_def racing_renewals_def renewal_calls_def task_defs
      client_defs example_defs)


section \<open>Reconnection\<close>

lemmas channel_defs = new_app_def updateConnectionStatus_def connectWebSocket_def onopen_def
  onclose_def onerror_def member_def call_views_def handleNewAlert_def handleDeviceUpdate_def
  handleScanUpdate_def handleWebSocketMessage_def onmessage_def reported_def connected_app_def

lemma close_then_timer:
  assumes "k \<in> set (live a)"
  shows "\<exists>a'. run_channel [Closed k, TimerFired True] a = Some a' \<and>
           sockets a' = Suc (sockets a) \<and> websocket a' = Some (sockets a) \<and>
           sockets a \<in> set (live a') \<and> length (timers a') = length (timers a)"
  using assms
  by (cases "timers a")
     (auto simp: onclose_def updateConnectionStatus_def connectWebSocket_def Let_def)

lemma reconnects_unbounded:
  "websocket a = Some k \<Longrightarrow> k \<in> set (live a) \<Longrightarrow>
     \<exists>a'. reconnects n a = Some a' \<and> sockets a' = sockets a + n \<and>
          (\<exists>k'. websocket a' = Some k' \<and> k' \<in> set (live a'))"
proof (induction n arbitrary: a k)
  case 0
  then show ?case by simp
next
  case (Suc n)
  from close_then_timer[OF Suc.prems(2)] obtain a1 where
    a1: "run_channel [Closed k, TimerFired True] a = Some a1"
        "sockets a1 = Suc (sockets a)" "websocket a1 = Some (sockets a)"
        "sockets a \<in> set (live a1)"
    by blast
  from Suc.IH[OF a1(3,4)] obtain a' where
    "reconnects n a1 = Some a'" "sockets a' = sockets a1 + n"
    "\<exists>k'. websocket a' = Some k' \<and> k' \<in> set (live a')"
    by blast
  with a1 Suc.prems(1) show ?case by simp
qed

text \<open>
  C5, as the code has it. The \<^verbatim>\<open>close\<close> event of a socket, in whatever state
  the application is, marks the channel disconnected and schedules one call of
  \<^verbatim>\<open>connectWebSocket\<close> after 5000 ms; when that timer fires and the socket is
  constructed, the new socket has the same listeners, so any number of reconnections
  follow one another with no other input. An \<^verbatim>\<open>error\<close> event alone, and a
  \<^verbatim>\<open>new WebSocket\<close> that throws, mark the channel disconnected and schedule
  nothing.
\<close>

theorem close_schedules_reconnect:
  "(k \<in> set (live a) \<longrightarrow>
      (\<exists>a'. channel_step (Closed k) a = Some a' \<and> timers a' = timers a @ [5000] \<and>
            connection a' = Some ''disconnected'' \<and>
            (\<exists>a''. channel_step (TimerFired True) a' = Some a'' \<and>
                   websocket a'' = Some (sockets a) \<and> sockets a \<in> set (live a'')))) \<and>
   (k \<in> set (live a) \<and> websocket a = Some k \<longrightarrow>
      (\<exists>a'. reconnects n a = Some a' \<and> sockets a' = sockets a + n \<and>
            (\<exists>k'. websocket a' = Some k' \<and> k' \<in> set (live a')))) \<and>
   (k \<in> set (live a) \<longrightarrow>
      (\<exists>a'. channel_step (Errored k) a = Some a' \<and> timers a' = timers a \<and>
            connection a' = Some ''disconnected'')) \<and>
   timers (connectWebSocket False a) = timers a \<and>
   live (connectWebSocket False a) = live a \<and>
   connection (connectWebSocket False a) = Some ''disconnected''"
proof -
  have p1: "k \<in> set (live a) \<longrightarrow>
      (\<exists>a'. channel_step (Closed k) a = Some a' \<and> timers a' = timers a @ [5000] \<and>
            connection a' = Some ''disconnected'' \<and>
            (\<exists>a''. channel_step (TimerFired True) a' = Some a'' \<and>
                   websocket a'' = Some (sockets a) \<and> sockets a \<in> set (live a'')))"
    by (cases "timers a")
       (auto simp: onclose_def updateConnectionStatus_def connectWebSocket_def Let_def)
  have p2: "k \<in> set (live a) \<and> websocket a = Some k \<longrightarrow>
      (\<exists>a'. reconnects n a = Some a' \<and> sockets a' = sockets a + n \<and>
            (\<exists>k'. websocket a' = Some k' \<and> k' \<in> set (live a')))"
    using reconnects_unbounded[of a k n] by blast
  have p3: "k \<in> set (live a) \<longrightarrow>
      (\<exists>a'. channel_step (Errored k) a = Some a' \<and> timers a' = timers a \<and>
            connection a' = Some ''disconnected'')"
    by (simp add: onerror_def updateConnectionStatus_def)
  have p4: "timers (connectWebSocket False a) = timers a"
    by (simp add: connectWebSocket_def updateConnectionStatus_def)
  have p5: "live (connectWebSocket False a) = live a"
    by (simp add: connectWebSocket_def updateConnectionStatus_def)
  have p6: "connection (connectWebSocket False a) = Some ''disconnected''"
    by (simp add: connectWebSocket_def updateConnectionStatus_def)
  from p1 p2 p3 p4 p5 p6 show ?thesis by (intro conjI)
qed

theorem close_schedules_reconnect_witness:
  "0 \<in> set (live connected_app) \<and> websocket connected_app = Some 0 \<and>
   map_option timers (channel_step (Closed 0) connected_app) = Some [5000] \<and>
   map_option sockets (reconnects 3 connected_app) = Some 4 \<and>
   map_option timers (channel_step (Errored 0) connected_app) = Some [] \<and>
   (\<exists>a'. reconnects 3 connected_app = Some a' \<and> sockets a' = sockets connected_app + 3 \<and>
         (\<exists>k'. websocket a' = Some k' \<and> k' \<in> set (live a')))"
proof -
  have h1: "0 \<in> set (live connected_app)"
    by (simp add: channel_defs)
  have h2: "websocket connected_app = Some 0"
    by (simp add: channel_defs)
  have c1: "map_option timers (channel_step (Closed 0) connected_app) = Some [5000]"
    by (simp add: channel_defs Let_def)
  have c2: "map_option sockets (reconnects 3 connected_app) = Some 4"
    by (simp add: channel_defs Let_def numeral_3_eq_3)
  have c3: "map_option timers (channel_step (Errored 0) connected_app) = Some []"
    by (simp add: channel_defs)
  from close_schedules_reconnect[of 0 connected_app 3] h1 h2
  have c4: "\<exists>a'. reconnects 3 connected_app = Some a' \<and> sockets a' = sockets connected_app + 3 \<and>
         (\<exists>k'. websocket a' = Some k' \<and> k' \<in> set (live a'))"
    by blast
  from h1 h2 c1 c2 c3 c4 show ?thesis by (intro conjI)
qed

theorem failed_construction_never_reconnects:
  "connection (connectWebSocket False new_app) = Some ''disconnected'' \<and>
   websocket (connectWebSocket False new_app) = None \<and>
   timers (connectWebSocket False new_app) = [] \<and>
   (\<forall>e. channel_step e (connectWebSocket False new_app) = None) \<and>
   (\<forall>e es. run_channel (e # es) (connectWebSocket False new_app) = None)"
proof -
  have s: "channel_step e (connectWebSocket False new_app) = None" for e
    by (cases e) (simp_all add: channel_defs)
  then show ?thesis
    by (simp add: channel_defs)
qed


section \<open>Delivery of inbound messages\<close>











end
